theory Spec2Isabelle
  imports Complex_Main
begin

section \<open>Numbers and tensors\<close>

text \<open>
  A tensor element is a real number or the not-a-number value that torch and numpy
  return for the square root of a negative number. Rounding and overflow are outside
  the model: arithmetic on numbers is exact, and a division by zero (infinite or
  not-a-number in IEEE arithmetic) is collapsed into \<open>NaN\<close>. \<open>NaN\<close> is absorbing,
  as it is in IEEE arithmetic.
\<close>

datatype fl = Num real | NaN

fun fadd :: "fl \<Rightarrow> fl \<Rightarrow> fl" where
  "fadd (Num x) (Num y) = Num (x + y)"
| "fadd _ _ = NaN"

fun fsub :: "fl \<Rightarrow> fl \<Rightarrow> fl" where
  "fsub (Num x) (Num y) = Num (x - y)"
| "fsub _ _ = NaN"

fun fmul :: "fl \<Rightarrow> fl \<Rightarrow> fl" where
  "fmul (Num x) (Num y) = Num (x * y)"
| "fmul _ _ = NaN"

fun fdiv :: "fl \<Rightarrow> fl \<Rightarrow> fl" where
  "fdiv (Num x) (Num y) = (if y = 0 then NaN else Num (x / y))"
| "fdiv _ _ = NaN"

text \<open>\<open>x.sqrt()\<close>, \<open>torch.sqrt\<close>, \<open>np.sqrt\<close>: no exception on a negative argument.\<close>

fun fsqrt :: "fl \<Rightarrow> fl" where
  "fsqrt (Num x) = (if x < 0 then NaN else Num (sqrt x))"
| "fsqrt NaN = NaN"

text \<open>
  A latent, a mask, a conditioning or a noise prediction is a list of batch rows, each
  row the flattened elements of one batch entry, so \<open>x.shape[0]\<close> is the length of
  the list. The tensors of one call have one shape (the source relies on the model to
  return predictions of the latent's shape); a mask is given expanded to that shape.
  A binary operation works element by element. A coefficient tensor built by
  \<open>torch.full((batch_size, 1, 1, 1), c)\<close> multiplies every element by \<open>c\<close>, so it
  is kept as the scalar \<open>c\<close>.
\<close>

type_synonym tensor = "fl list list"

definition tmap :: "(fl \<Rightarrow> fl) \<Rightarrow> tensor \<Rightarrow> tensor" where
  "tmap f x = map (map f) x"

definition tzip :: "(fl \<Rightarrow> fl \<Rightarrow> fl) \<Rightarrow> tensor \<Rightarrow> tensor \<Rightarrow> tensor" where
  "tzip f x y = map2 (map2 f) x y"

definition tadd :: "tensor \<Rightarrow> tensor \<Rightarrow> tensor" where
  "tadd = tzip fadd"

definition tsub :: "tensor \<Rightarrow> tensor \<Rightarrow> tensor" where
  "tsub = tzip fsub"

definition tmul :: "tensor \<Rightarrow> tensor \<Rightarrow> tensor" where
  "tmul = tzip fmul"

text \<open>\<open>c * x\<close> and \<open>x * c\<close> for a scalar or a \<open>(batch, 1, 1, 1)\<close> coefficient \<open>c\<close>.\<close>

definition smul :: "fl \<Rightarrow> tensor \<Rightarrow> tensor" where
  "smul c x = tmap (fmul c) x"

definition tscale :: "tensor \<Rightarrow> fl \<Rightarrow> tensor" where
  "tscale x c = tmap (\<lambda>v. fmul v c) x"

text \<open>\<open>x / c\<close>\<close>

definition sdiv :: "tensor \<Rightarrow> fl \<Rightarrow> tensor" where
  "sdiv x c = tmap (\<lambda>v. fdiv v c) x"

text \<open>\<open>c - x\<close>, as in \<open>1.0 - mask\<close>\<close>

definition rsub :: "fl \<Rightarrow> tensor \<Rightarrow> tensor" where
  "rsub c x = tmap (fsub c) x"

text \<open>\<open>x.shape\<close>: the batch size and the number of elements of a batch entry.\<close>

definition shape_of :: "tensor \<Rightarrow> nat \<times> nat" where
  "shape_of x = (length x, case x of [] \<Rightarrow> 0 | r # _ \<Rightarrow> length r)"

section \<open>Errors, the random generator and effects\<close>

text \<open>
  The exceptions of the source. \<open>ValueError_conditionings c b\<close> is the
  \<open>ValueError\<close> of \<open>sample\<close> ("Got c conditionings but batch-size is b"),
  \<open>ValueError_alphas\<close> the one of the schedule constructors ("alphas have to be
  defined for each timestep"), \<open>AssertionError\<close> a failed \<open>assert\<close>,
  \<open>IndexError\<close> an index out of range, \<open>OtherError\<close> an error raised by a
  collaborator.
\<close>

datatype error =
    ValueError_conditionings nat nat
  | ValueError_alphas
  | AssertionError
  | IndexError
  | OtherError

text \<open>
  The global random generator of torch: the sequence of standard normal samples that its
  seed fixes, and the number of samples drawn so far.
\<close>

record world =
  seed :: "nat \<Rightarrow> real"
  pos :: nat

text \<open>
  A computation that may draw random numbers and may raise: it returns the error or the
  value, and the generator as it is left.
\<close>

type_synonym 'a io = "world \<Rightarrow> (error + 'a) \<times> world"

definition ret :: "'a \<Rightarrow> 'a io" where
  "ret a w = (Inr a, w)"

definition raise :: "error \<Rightarrow> 'a io" where
  "raise e w = (Inl e, w)"

definition bind :: "'a io \<Rightarrow> ('a \<Rightarrow> 'b io) \<Rightarrow> 'b io" where
  "bind m f w = (case m w of (Inl e, w') \<Rightarrow> (Inl e, w') | (Inr a, w') \<Rightarrow> f a w')"

text \<open>A pure computation that may raise, run inside an effectful one.\<close>

definition lift :: "error + 'a \<Rightarrow> 'a io" where
  "lift r w = (r, w)"

text \<open>\<open>xs[i]\<close> for an index that is never negative.\<close>

definition index_at :: "'a list \<Rightarrow> nat \<Rightarrow> error + 'a" where
  "index_at xs i = (if i < length xs then Inr (xs ! i) else Inl IndexError)"

text \<open>\<open>torch.randn(shape)\<close>: one sample for each element, in row-major order.\<close>

definition randn :: "nat \<times> nat \<Rightarrow> tensor io" where
  "randn sh w =
     (case sh of (b, n) \<Rightarrow>
        (Inr (map (\<lambda>r. map (\<lambda>j. Num (seed w (pos w + r * n + j))) [0..<n]) [0..<b]),
         w\<lparr>pos := pos w + b * n\<rparr>))"

text \<open>\<open>torch.randn_like(x)\<close>\<close>

definition randn_like :: "tensor \<Rightarrow> tensor io" where
  "randn_like x = randn (shape_of x)"

text \<open>
  Modelled from the spec: \<open>noise_like\<close> of \<open>imaginairy.modules.diffusion.util\<close>, which
  is not among the sources. It returns a standard normal sample of the given shape; with
  the repeat flag the sample is drawn once for batch element 0 and repeated for every
  batch element.
\<close>

definition noise_like :: "nat \<times> nat \<Rightarrow> bool \<Rightarrow> tensor io" where
  "noise_like sh repeat =
     (case sh of (b, n) \<Rightarrow>
        if repeat then bind (randn (1, n)) (\<lambda>z. ret (concat (replicate b z)))
        else randn (b, n))"

section \<open>The collaborators\<close>

text \<open>
  What the two modules reach through \<open>self.model\<close> and their imports, none of it
  among the sources:
  \<^item> \<open>model_num_timesteps\<close> and \<open>model_alphas_cumprod\<close>, which are
    \<open>self.model.num_timesteps\<close> and \<open>self.model.alphas_cumprod\<close>;
  \<^item> \<open>noise_prediction x ts neutral positive scale\<close>, which is
    \<open>get_noise_prediction\<close> applied to \<open>self.model.apply_model\<close>: a function of its
    arguments;
  \<^item> \<open>q_sample x ts noise\<close>, which is \<open>self.model.q_sample\<close>; its noise argument is
    optional and it may draw random numbers;
  \<^item> \<open>quantize x\<close>, the first result of \<open>self.model.first_stage_model.quantize\<close>;
  \<^item> \<open>make_ddim_timesteps method num_ddim_timesteps num_ddpm_timesteps\<close>;
  \<^item> \<open>dropout x p\<close>, which is \<open>torch.nn.functional.dropout\<close>.
  They are parameters: what is proved holds whatever they compute.
\<close>

record env =
  model_num_timesteps :: nat
  model_alphas_cumprod :: "fl list"
  noise_prediction :: "tensor \<Rightarrow> nat list \<Rightarrow> tensor \<Rightarrow> tensor \<Rightarrow> real \<Rightarrow> tensor"
  q_sample :: "tensor \<Rightarrow> nat list \<Rightarrow> tensor option \<Rightarrow> tensor io"
  quantize :: "tensor \<Rightarrow> tensor"
  make_ddim_timesteps :: "string \<Rightarrow> nat \<Rightarrow> nat \<Rightarrow> error + nat list"
  dropout :: "tensor \<Rightarrow> real \<Rightarrow> tensor io"

section \<open>The schedule\<close>

text \<open>The fields of a \<open>DDIMSchedule\<close> and of a \<open>PLMSSchedule\<close> object.\<close>

record schedule =
  alphas_cumprod :: "fl list"
  ddim_timesteps :: "nat list"
  sqrt_alphas_cumprod :: "fl list"
  sqrt_one_minus_alphas_cumprod :: "fl list"
  ddim_sigmas :: "fl list"
  ddim_alphas :: "fl list"
  ddim_alphas_prev :: "fl list"
  ddim_sqrt_one_minus_alphas :: "fl list"

text \<open>\<open>[f(x) for x in xs]\<close> where \<open>f\<close> may raise.\<close>

fun map_err :: "('a \<Rightarrow> error + 'b) \<Rightarrow> 'a list \<Rightarrow> error + 'b list" where
  "map_err f [] = Inr []"
| "map_err f (x # xs) =
     (case f x of Inl e \<Rightarrow> Inl e
      | Inr y \<Rightarrow> (case map_err f xs of Inl e \<Rightarrow> Inl e | Inr ys \<Rightarrow> Inr (y # ys)))"

text \<open>
  Modelled from the spec: \<open>make_ddim_sampling_parameters\<close> of
  \<open>imaginairy.modules.diffusion.util\<close>, which is not among the sources. For the schedule
  index \<open>i\<close> with model timestep \<open>t\<^sub>i\<close>: \<open>alphas[i] = alphacums[t\<^sub>i]\<close>;
  \<open>alphas_prev[i] = alphacums[t\<^bsub>i-1\<^esub>]\<close> for \<open>i > 0\<close>, else \<open>alphacums[0]\<close>;
  \<open>sigmas[i] = eta * sqrt((1 - alphas_prev[i]) / (1 - alphas[i]) * (1 - alphas[i] / alphas_prev[i]))\<close>.
  It returns \<open>(sigmas, alphas, alphas_prev)\<close>.
\<close>

definition sigma_of :: "real \<Rightarrow> fl \<Rightarrow> fl \<Rightarrow> fl" where
  "sigma_of eta a ap =
     fmul (Num eta)
       (fsqrt (fmul (fdiv (fsub (Num 1) ap) (fsub (Num 1) a)) (fsub (Num 1) (fdiv a ap))))"

definition make_ddim_sampling_parameters ::
  "fl list \<Rightarrow> nat list \<Rightarrow> real \<Rightarrow> error + (fl list \<times> fl list \<times> fl list)" where
  "make_ddim_sampling_parameters alphacums timesteps eta =
     (case map_err (index_at alphacums) timesteps of
        Inl e \<Rightarrow> Inl e
      | Inr alphas \<Rightarrow>
          (case map_err (\<lambda>i. if i = 0 then index_at alphacums 0 else index_at alphas (i - 1))
                  [0..<length timesteps] of
             Inl e \<Rightarrow> Inl e
           | Inr alphas_prev \<Rightarrow>
               Inr (map2 (sigma_of eta) alphas alphas_prev, alphas, alphas_prev)))"

text \<open>\<open>DDIMSchedule.__init__\<close> (ddim.py).\<close>

definition DDIMSchedule ::
  "env \<Rightarrow> nat \<Rightarrow> fl list \<Rightarrow> nat \<Rightarrow> string \<Rightarrow> real \<Rightarrow> error + schedule" where
  "DDIMSchedule E num_timesteps alphacums ddim_num_steps ddim_discretize ddim_eta =
     (if \<not> length alphacums = num_timesteps then Inl ValueError_alphas
      else case make_ddim_timesteps E ddim_discretize ddim_num_steps num_timesteps of
        Inl e \<Rightarrow> Inl e
      | Inr timesteps \<Rightarrow>
          (case make_ddim_sampling_parameters alphacums timesteps ddim_eta of
             Inl e \<Rightarrow> Inl e
           | Inr (sigmas, alphas, alphas_prev) \<Rightarrow>
               Inr \<lparr>alphas_cumprod = alphacums,
                    ddim_timesteps = timesteps,
                    sqrt_alphas_cumprod = map fsqrt alphacums,
                    sqrt_one_minus_alphas_cumprod = map (\<lambda>a. fsqrt (fsub (Num 1) a)) alphacums,
                    ddim_sigmas = sigmas,
                    ddim_alphas = alphas,
                    ddim_alphas_prev = alphas_prev,
                    ddim_sqrt_one_minus_alphas = map (\<lambda>a. fsqrt (fsub (Num 1) a)) alphas\<rparr>))"

text \<open>\<open>PLMSSchedule.__init__\<close> (plms.py): the same fields, with \<open>eta=0.0\<close> written in.\<close>

definition PLMSSchedule ::
  "env \<Rightarrow> nat \<Rightarrow> fl list \<Rightarrow> nat \<Rightarrow> string \<Rightarrow> error + schedule" where
  "PLMSSchedule E num_timesteps alphacums ddim_num_steps ddim_discretize =
     (if length alphacums \<noteq> num_timesteps then Inl ValueError_alphas
      else case make_ddim_timesteps E ddim_discretize ddim_num_steps num_timesteps of
        Inl e \<Rightarrow> Inl e
      | Inr timesteps \<Rightarrow>
          (case make_ddim_sampling_parameters alphacums timesteps 0 of
             Inl e \<Rightarrow> Inl e
           | Inr (sigmas, alphas, alphas_prev) \<Rightarrow>
               Inr \<lparr>alphas_cumprod = alphacums,
                    ddim_timesteps = timesteps,
                    sqrt_alphas_cumprod = map fsqrt alphacums,
                    sqrt_one_minus_alphas_cumprod = map (\<lambda>a. fsqrt (fsub (Num 1) a)) alphacums,
                    ddim_sigmas = sigmas,
                    ddim_alphas = alphas,
                    ddim_alphas_prev = alphas_prev,
                    ddim_sqrt_one_minus_alphas = map (\<lambda>a. fsqrt (fsub (Num 1) a)) alphas\<rparr>))"

section \<open>The step formula\<close>

text \<open>
  \<open>DDIMSampler._p_sample_ddim_formula\<close> (ddim.py). The direction term, which the source
  binds to \<open>dir_xt\<close>, is a definition of its own so that it can be spoken of.
\<close>

definition dir_xt :: "fl \<Rightarrow> fl \<Rightarrow> tensor \<Rightarrow> tensor" where
  "dir_xt a_prev sigma_t noise_pred =
     smul (fsqrt (fsub (fsub (Num 1) a_prev) (fmul sigma_t sigma_t))) noise_pred"

definition p_sample_ddim_formula ::
  "env \<Rightarrow> tensor \<Rightarrow> tensor \<Rightarrow> fl \<Rightarrow> fl \<Rightarrow> fl \<Rightarrow> fl \<Rightarrow> real \<Rightarrow> bool \<Rightarrow> real
     \<Rightarrow> (tensor \<times> tensor) io" where
  "p_sample_ddim_formula E noisy_latent noise_pred sqrt_one_minus_at a_t sigma_t a_prev
       noise_dropout repeat_noise temperature =
     (let predicted_latent =
            sdiv (tsub noisy_latent (smul sqrt_one_minus_at noise_pred)) (fsqrt a_t);
          d = dir_xt a_prev sigma_t noise_pred
      in bind (noise_like (shape_of noisy_latent) repeat_noise) (\<lambda>z.
         let noise = tscale (smul sigma_t z) (Num temperature)
         in bind (if noise_dropout > 0 then dropout E noise noise_dropout else ret noise)
              (\<lambda>noise.
                 ret (tadd (tadd (smul (fsqrt a_prev) predicted_latent) d) noise,
                      predicted_latent))))"

text \<open>
  \<open>DDIMSampler.p_sample_ddim\<close>. The arguments \<open>quantize_denoised\<close> and
  \<open>loss_function\<close> are not used by the source; the first is kept to show what
  \<open>sample\<close> passes.
\<close>

definition p_sample_ddim ::
  "env \<Rightarrow> tensor \<Rightarrow> tensor \<Rightarrow> tensor \<Rightarrow> real \<Rightarrow> nat list \<Rightarrow> nat \<Rightarrow> schedule
     \<Rightarrow> bool \<Rightarrow> bool \<Rightarrow> real \<Rightarrow> real \<Rightarrow> (tensor \<times> tensor) io" where
  "p_sample_ddim E noisy_latent neutral_conditioning positive_conditioning guidance_scale
       time_encoding index sched repeat_noise quantize_denoised temperature noise_dropout =
     (if \<not> guidance_scale \<ge> 1 then raise AssertionError
      else
        let noise_pred = noise_prediction E noisy_latent time_encoding neutral_conditioning
                           positive_conditioning guidance_scale
        in bind (lift (index_at (ddim_alphas sched) index)) (\<lambda>a_t.
           bind (lift (index_at (ddim_alphas_prev sched) index)) (\<lambda>a_prev.
           bind (lift (index_at (ddim_sigmas sched) index)) (\<lambda>sigma_t.
           bind (lift (index_at (ddim_sqrt_one_minus_alphas sched) index)) (\<lambda>sqrt_one_minus_at.
             p_sample_ddim_formula E noisy_latent noise_pred sqrt_one_minus_at a_t sigma_t
               a_prev noise_dropout repeat_noise temperature)))))"

section \<open>Loops and masks\<close>

text \<open>
  \<open>for item in items: state = body(item, state)\<close>, where the body may raise and may draw
  random numbers; an exception ends the loop.
\<close>

fun for_loop :: "('i \<Rightarrow> 's \<Rightarrow> 's io) \<Rightarrow> 'i list \<Rightarrow> 's \<Rightarrow> 's io" where
  "for_loop body [] s = ret s"
| "for_loop body (item # items) s = bind (body item s) (for_loop body items)"

text \<open>\<open>known * mask + (1.0 - mask) * noisy_latent\<close>, the compositing expression of all four
  loops.\<close>

definition composite :: "tensor \<Rightarrow> tensor \<Rightarrow> tensor \<Rightarrow> tensor" where
  "composite known m noisy_latent =
     tadd (tmul known m) (tmul (rsub (Num 1) m) noisy_latent)"

text \<open>The mask block of \<open>sample\<close>, in both samplers: the latent that the step then
  receives. \<open>q_sample\<close> is called without a noise argument.\<close>

definition sample_mask_block ::
  "env \<Rightarrow> tensor option \<Rightarrow> tensor option \<Rightarrow> nat list \<Rightarrow> tensor \<Rightarrow> tensor io" where
  "sample_mask_block E mask_opt orig_latent ts noisy_latent =
     (case mask_opt of
        None \<Rightarrow> ret noisy_latent
      | Some m \<Rightarrow>
          (case orig_latent of
             None \<Rightarrow> raise AssertionError
           | Some orig \<Rightarrow>
               bind (q_sample E orig ts None) (\<lambda>img_orig.
                 ret (composite img_orig m noisy_latent))))"

text \<open>
  The hint of \<open>decode\<close>, in both samplers, with \<open>hint_strength = 0.8\<close>:
  \<open>xdec_orig * (1 - hint_strength) + orig_latent * hint_strength\<close> while \<open>i < 2\<close>.
\<close>

definition hint_strength :: real where
  "hint_strength = 8 / 10"

definition with_hints :: "nat \<Rightarrow> tensor \<Rightarrow> tensor \<Rightarrow> tensor" where
  "with_hints i xdec_orig orig_latent =
     (if i < 2
      then tadd (tscale xdec_orig (Num (1 - hint_strength)))
                (tscale orig_latent (Num hint_strength))
      else xdec_orig)"

text \<open>The mask block of \<open>decode\<close>; \<open>noise\<close> is what \<open>q_sample\<close> is given as its third
  argument: nothing in \<open>DDIMSampler.decode\<close>, the noise tensor in \<open>PLMSSampler.decode\<close>.\<close>

definition decode_mask_block ::
  "env \<Rightarrow> tensor option \<Rightarrow> tensor option \<Rightarrow> tensor option \<Rightarrow> nat \<Rightarrow> nat list
     \<Rightarrow> tensor \<Rightarrow> tensor io" where
  "decode_mask_block E mask_opt orig_latent noise i ts noisy_latent =
     (case mask_opt of
        None \<Rightarrow> ret noisy_latent
      | Some m \<Rightarrow>
          (case orig_latent of
             None \<Rightarrow> raise AssertionError
           | Some orig \<Rightarrow>
               bind (q_sample E orig ts noise) (\<lambda>xdec_orig.
                 ret (composite (with_hints i xdec_orig orig) m noisy_latent))))"

section \<open>The DDIM sampler\<close>

text \<open>The body of the loop of \<open>DDIMSampler.sample\<close>, for the pair \<open>(i, step)\<close>. In the
  loop \<open>i\<close> is below \<open>total_steps\<close>, so \<open>index\<close> is never negative; this holds for the
  four loop bodies.\<close>

definition ddim_sample_body ::
  "env \<Rightarrow> tensor \<Rightarrow> tensor \<Rightarrow> real \<Rightarrow> nat \<Rightarrow> tensor option \<Rightarrow> tensor option \<Rightarrow> real
     \<Rightarrow> real \<Rightarrow> bool \<Rightarrow> schedule \<Rightarrow> nat \<Rightarrow> nat \<times> nat \<Rightarrow> tensor \<Rightarrow> tensor io" where
  "ddim_sample_body E neutral_conditioning positive_conditioning guidance_scale batch_size
       mask_opt orig_latent temperature noise_dropout quantize_x0 sched total_steps item
       noisy_latent =
     (case item of (i, step) \<Rightarrow>
        let index = total_steps - i - 1;
            ts = replicate batch_size step
        in bind (sample_mask_block E mask_opt orig_latent ts noisy_latent) (\<lambda>noisy_latent.
           bind (p_sample_ddim E noisy_latent neutral_conditioning positive_conditioning
                   guidance_scale ts index sched False quantize_x0 temperature noise_dropout)
             (\<lambda>(noisy_latent, predicted_latent). ret noisy_latent)))"

text \<open>\<open>DDIMSampler.sample\<close>.\<close>

definition ddim_sample ::
  "env \<Rightarrow> nat \<Rightarrow> nat \<times> nat \<Rightarrow> tensor \<Rightarrow> tensor \<Rightarrow> real \<Rightarrow> nat \<Rightarrow> tensor option
     \<Rightarrow> tensor option \<Rightarrow> real \<Rightarrow> real \<Rightarrow> tensor option \<Rightarrow> bool \<Rightarrow> tensor io" where
  "ddim_sample E num_steps shape neutral_conditioning positive_conditioning guidance_scale
       batch_size mask_opt orig_latent temperature noise_dropout initial_latent quantize_x0 =
     (if length positive_conditioning \<noteq> batch_size
      then raise (ValueError_conditionings (length positive_conditioning) batch_size)
      else
        bind (lift (DDIMSchedule E (model_num_timesteps E) (model_alphas_cumprod E) num_steps
                      ''uniform'' 0)) (\<lambda>sched.
        bind (case initial_latent of None \<Rightarrow> randn shape | Some x \<Rightarrow> ret x)
          (\<lambda>initial_latent.
             let timesteps = ddim_timesteps sched;
                 time_range = rev timesteps;
                 total_steps = length timesteps
             in for_loop
                  (ddim_sample_body E neutral_conditioning positive_conditioning guidance_scale
                     batch_size mask_opt orig_latent temperature noise_dropout quantize_x0 sched
                     total_steps)
                  (List.enumerate 0 time_range) initial_latent)))"

text \<open>\<open>xs[:t]\<close>: a negative bound counts from the end, no bound keeps everything.\<close>

definition slice_to :: "'a list \<Rightarrow> int option \<Rightarrow> 'a list" where
  "slice_to xs t =
     (case t of
        None \<Rightarrow> xs
      | Some k \<Rightarrow> if k < 0 then take (length xs - nat (- k)) xs else take (nat k) xs)"

text \<open>The body of the loop of \<open>DDIMSampler.decode\<close>; the step gets the defaults
  \<open>repeat_noise=False\<close>, \<open>quantize_denoised=False\<close> and \<open>noise_dropout=0.0\<close>.\<close>

definition ddim_decode_body ::
  "env \<Rightarrow> tensor \<Rightarrow> tensor \<Rightarrow> tensor \<Rightarrow> real \<Rightarrow> schedule \<Rightarrow> real \<Rightarrow> tensor option
     \<Rightarrow> tensor option \<Rightarrow> nat \<Rightarrow> nat \<times> nat \<Rightarrow> tensor \<Rightarrow> tensor io" where
  "ddim_decode_body E initial_latent neutral_conditioning positive_conditioning guidance_scale
       sched temperature mask_opt orig_latent total_steps item noisy_latent =
     (case item of (i, step) \<Rightarrow>
        let index = total_steps - i - 1;
            ts = replicate (length initial_latent) step
        in bind (decode_mask_block E mask_opt orig_latent None i ts noisy_latent) (\<lambda>noisy_latent.
           bind (p_sample_ddim E noisy_latent neutral_conditioning positive_conditioning
                   guidance_scale ts index sched False False temperature 0)
             (\<lambda>(noisy_latent, predicted_latent). ret noisy_latent)))"

text \<open>\<open>DDIMSampler.decode\<close>.\<close>

definition ddim_decode ::
  "env \<Rightarrow> tensor \<Rightarrow> tensor \<Rightarrow> tensor \<Rightarrow> real \<Rightarrow> int \<Rightarrow> schedule \<Rightarrow> real \<Rightarrow> tensor option
     \<Rightarrow> tensor option \<Rightarrow> tensor io" where
  "ddim_decode E initial_latent neutral_conditioning positive_conditioning guidance_scale
       t_start sched temperature mask_opt orig_latent =
     (let timesteps = slice_to (ddim_timesteps sched) (Some t_start);
          time_range = rev timesteps;
          total_steps = length timesteps
      in for_loop
           (ddim_decode_body E initial_latent neutral_conditioning positive_conditioning
              guidance_scale sched temperature mask_opt orig_latent total_steps)
           (List.enumerate 0 time_range) initial_latent)"

section \<open>Noising an image\<close>

text \<open>
  Modelled from the spec: \<open>extract_into_tensor\<close> of \<open>imaginairy.modules.diffusion.util\<close>,
  which is not among the sources. It gathers \<open>a[t]\<close> for the index \<open>t\<close> of each batch
  entry; the product with a tensor multiplies each batch entry by its coefficient.
\<close>

definition extract_into_tensor :: "fl list \<Rightarrow> nat list \<Rightarrow> error + fl list" where
  "extract_into_tensor a t = map_err (index_at a) t"

definition row_scale :: "fl list \<Rightarrow> tensor \<Rightarrow> tensor" where
  "row_scale cs x = map2 (\<lambda>c row. map (fmul c) row) cs x"

text \<open>\<open>t.clamp(0, 1000)\<close> on a tensor of integers.\<close>

definition clamp_t :: "int list \<Rightarrow> nat list" where
  "clamp_t t = map (\<lambda>k. nat (max 0 (min 1000 k))) t"

text \<open>\<open>DDIMSampler.noise_an_image\<close> and \<open>PLMSSampler.noise_an_image\<close>, which are the same
  code.\<close>

definition noise_an_image ::
  "tensor \<Rightarrow> int list \<Rightarrow> schedule \<Rightarrow> tensor option \<Rightarrow> tensor io" where
  "noise_an_image init_latent t sched noise =
     (let t = clamp_t t;
          sqrt_alphas_cumprod = map fsqrt (ddim_alphas sched);
          sqrt_one_minus_alphas_cumprod = ddim_sqrt_one_minus_alphas sched
      in bind (case noise of None \<Rightarrow> randn_like init_latent | Some z \<Rightarrow> ret z) (\<lambda>noise.
         bind (lift (extract_into_tensor sqrt_alphas_cumprod t)) (\<lambda>c1.
         bind (lift (extract_into_tensor sqrt_one_minus_alphas_cumprod t)) (\<lambda>c2.
           ret (tadd (row_scale c1 init_latent) (row_scale c2 noise))))))"

section \<open>The PLMS sampler\<close>

text \<open>
  The local function \<open>get_x_prev_and_pred_x0\<close> of \<open>PLMSSampler.p_sample_plms\<close>, with
  the variables it takes from the enclosing call as arguments.
\<close>

definition get_x_prev_and_pred_x0 ::
  "env \<Rightarrow> tensor \<Rightarrow> schedule \<Rightarrow> bool \<Rightarrow> bool \<Rightarrow> real \<Rightarrow> real \<Rightarrow> tensor \<Rightarrow> nat
     \<Rightarrow> (tensor \<times> tensor) io" where
  "get_x_prev_and_pred_x0 E noisy_latent sched repeat_noise quantize_denoised temperature
       noise_dropout e_t index =
     bind (lift (index_at (ddim_alphas sched) index)) (\<lambda>alpha_at_t.
     bind (lift (index_at (ddim_alphas_prev sched) index)) (\<lambda>alpha_prev_at_t.
     bind (lift (index_at (ddim_sigmas sched) index)) (\<lambda>sigma_t.
     bind (lift (index_at (ddim_sqrt_one_minus_alphas sched) index)) (\<lambda>sqrt_one_minus_at.
       let pred_x0 = sdiv (tsub noisy_latent (smul sqrt_one_minus_at e_t)) (fsqrt alpha_at_t);
           pred_x0 = (if quantize_denoised then quantize E pred_x0 else pred_x0);
           d = dir_xt alpha_prev_at_t sigma_t e_t
       in bind (noise_like (shape_of noisy_latent) repeat_noise) (\<lambda>z.
          let noise = tscale (smul sigma_t z) (Num temperature)
          in bind (if noise_dropout > 0 then dropout E noise noise_dropout else ret noise)
               (\<lambda>noise.
                  ret (tadd (tadd (smul (fsqrt alpha_prev_at_t) pred_x0) d) noise,
                       pred_x0)))))))"

text \<open>
  The chain of \<open>if len(old_eps) == 0 ... elif len(old_eps) >= 3\<close> of \<open>p_sample_plms\<close>,
  which computes \<open>e_t_prime\<close>; \<open>old_eps[-k]\<close> is the entry \<open>k\<close> places from the end.
\<close>

definition e_t_prime ::
  "env \<Rightarrow> tensor \<Rightarrow> tensor \<Rightarrow> tensor \<Rightarrow> real \<Rightarrow> schedule \<Rightarrow> nat \<Rightarrow> bool \<Rightarrow> bool \<Rightarrow> real
     \<Rightarrow> real \<Rightarrow> tensor list \<Rightarrow> nat list \<Rightarrow> tensor \<Rightarrow> tensor io" where
  "e_t_prime E noisy_latent neutral_conditioning positive_conditioning guidance_scale sched
       index repeat_noise quantize_denoised temperature noise_dropout old_eps t_next
       noise_pred =
     (let n = length old_eps in
      if n = 0 then
        bind (get_x_prev_and_pred_x0 E noisy_latent sched repeat_noise quantize_denoised
                temperature noise_dropout noise_pred index) (\<lambda>(x_prev, pred_x0).
          let e_t_next = noise_prediction E x_prev t_next neutral_conditioning
                           positive_conditioning guidance_scale
          in ret (sdiv (tadd noise_pred e_t_next) (Num 2)))
      else if n = 1 then
        ret (sdiv (tsub (smul (Num 3) noise_pred) (old_eps ! (n - 1))) (Num 2))
      else if n = 2 then
        ret (sdiv (tadd (tsub (smul (Num 23) noise_pred) (smul (Num 16) (old_eps ! (n - 1))))
                        (smul (Num 5) (old_eps ! (n - 2))))
                  (Num 12))
      else
        ret (sdiv (tsub (tadd (tsub (smul (Num 55) noise_pred)
                                    (smul (Num 59) (old_eps ! (n - 1))))
                              (smul (Num 37) (old_eps ! (n - 2))))
                        (smul (Num 9) (old_eps ! (n - 3))))
                  (Num 24)))"

text \<open>\<open>PLMSSampler.p_sample_plms\<close>; its callers always pass \<open>old_eps\<close> and
  \<open>t_next\<close>.\<close>

definition p_sample_plms ::
  "env \<Rightarrow> tensor \<Rightarrow> tensor \<Rightarrow> tensor \<Rightarrow> real \<Rightarrow> nat list \<Rightarrow> schedule \<Rightarrow> nat \<Rightarrow> bool
     \<Rightarrow> bool \<Rightarrow> real \<Rightarrow> real \<Rightarrow> tensor list \<Rightarrow> nat list
     \<Rightarrow> (tensor \<times> tensor \<times> tensor) io" where
  "p_sample_plms E noisy_latent neutral_conditioning positive_conditioning guidance_scale
       time_encoding sched index repeat_noise quantize_denoised temperature noise_dropout
       old_eps t_next =
     (if \<not> guidance_scale \<ge> 1 then raise AssertionError
      else
        let noise_pred = noise_prediction E noisy_latent time_encoding neutral_conditioning
                           positive_conditioning guidance_scale
        in bind (e_t_prime E noisy_latent neutral_conditioning positive_conditioning
                   guidance_scale sched index repeat_noise quantize_denoised temperature
                   noise_dropout old_eps t_next noise_pred) (\<lambda>e.
           bind (get_x_prev_and_pred_x0 E noisy_latent sched repeat_noise quantize_denoised
                   temperature noise_dropout e index) (\<lambda>(x_prev, pred_x0).
             ret (x_prev, pred_x0, noise_pred))))"

text \<open>\<open>old_eps.append(e)\<close>, then \<open>old_eps.pop(0)\<close> if \<open>len(old_eps) >= 4\<close>: the two
  lines that end the loop body of \<open>sample\<close> and of \<open>decode\<close>.\<close>

definition append_pop :: "tensor list \<Rightarrow> tensor \<Rightarrow> tensor list" where
  "append_pop old_eps e =
     (let old_eps = old_eps @ [e] in if length old_eps \<ge> 4 then tl old_eps else old_eps)"

text \<open>The body of the loop of \<open>PLMSSampler.sample\<close>; the loop's state is the latent and
  \<open>old_eps\<close>.\<close>

definition plms_sample_body ::
  "env \<Rightarrow> tensor \<Rightarrow> tensor \<Rightarrow> real \<Rightarrow> nat \<Rightarrow> tensor option \<Rightarrow> tensor option \<Rightarrow> real
     \<Rightarrow> real \<Rightarrow> bool \<Rightarrow> schedule \<Rightarrow> nat list \<Rightarrow> nat \<Rightarrow> nat \<times> nat
     \<Rightarrow> tensor \<times> tensor list \<Rightarrow> (tensor \<times> tensor list) io" where
  "plms_sample_body E neutral_conditioning positive_conditioning guidance_scale batch_size
       mask_opt orig_latent temperature noise_dropout quantize_denoised sched time_range
       total_steps item state =
     (case item of (i, step) \<Rightarrow> case state of (noisy_latent, old_eps) \<Rightarrow>
        let index = total_steps - i - 1;
            ts = replicate batch_size step
        in bind (lift (index_at time_range (min (i + 1) (length time_range - 1)))) (\<lambda>step_next.
           let ts_next = replicate batch_size step_next
           in bind (sample_mask_block E mask_opt orig_latent ts noisy_latent) (\<lambda>noisy_latent.
              bind (p_sample_plms E noisy_latent neutral_conditioning positive_conditioning
                      guidance_scale ts sched index False quantize_denoised temperature
                      noise_dropout old_eps ts_next)
                (\<lambda>(noisy_latent, predicted_latent, noise_pred).
                   ret (noisy_latent, append_pop old_eps noise_pred)))))"

text \<open>\<open>PLMSSampler.sample\<close>.\<close>

definition plms_sample ::
  "env \<Rightarrow> nat \<Rightarrow> nat \<times> nat \<Rightarrow> tensor \<Rightarrow> tensor \<Rightarrow> real \<Rightarrow> nat \<Rightarrow> tensor option
     \<Rightarrow> tensor option \<Rightarrow> real \<Rightarrow> real \<Rightarrow> tensor option \<Rightarrow> bool \<Rightarrow> tensor io" where
  "plms_sample E num_steps shape neutral_conditioning positive_conditioning guidance_scale
       batch_size mask_opt orig_latent temperature noise_dropout initial_latent
       quantize_denoised =
     (if length positive_conditioning \<noteq> batch_size
      then raise (ValueError_conditionings (length positive_conditioning) batch_size)
      else
        bind (lift (PLMSSchedule E (model_num_timesteps E) (model_alphas_cumprod E) num_steps
                      ''uniform'')) (\<lambda>sched.
        bind (case initial_latent of None \<Rightarrow> randn shape | Some x \<Rightarrow> ret x)
          (\<lambda>initial_latent.
             let timesteps = ddim_timesteps sched;
                 time_range = rev timesteps;
                 total_steps = length timesteps
             in bind (for_loop
                        (plms_sample_body E neutral_conditioning positive_conditioning
                           guidance_scale batch_size mask_opt orig_latent temperature
                           noise_dropout quantize_denoised sched time_range total_steps)
                        (List.enumerate 0 time_range) (initial_latent, []))
                  (\<lambda>(noisy_latent, old_eps). ret noisy_latent))))"

text \<open>The body of the loop of \<open>PLMSSampler.decode\<close>; \<open>noise\<close> is the tensor that the
  call fixed before the loop.\<close>

definition plms_decode_body ::
  "env \<Rightarrow> tensor \<Rightarrow> tensor \<Rightarrow> real \<Rightarrow> schedule \<Rightarrow> tensor \<Rightarrow> real \<Rightarrow> tensor option
     \<Rightarrow> tensor option \<Rightarrow> tensor \<Rightarrow> nat list \<Rightarrow> nat \<Rightarrow> nat \<times> nat
     \<Rightarrow> tensor \<times> tensor list \<Rightarrow> (tensor \<times> tensor list) io" where
  "plms_decode_body E neutral_conditioning positive_conditioning guidance_scale sched
       initial_latent temperature mask_opt orig_latent noise time_range total_steps item
       state =
     (case item of (i, step) \<Rightarrow> case state of (x_dec, old_eps) \<Rightarrow>
        let index = total_steps - i - 1;
            ts = replicate (length initial_latent) step
        in bind (lift (index_at time_range (min (i + 1) (length time_range - 1)))) (\<lambda>step_next.
           let ts_next = replicate (length initial_latent) step_next
           in bind (decode_mask_block E mask_opt orig_latent (Some noise) i ts x_dec) (\<lambda>x_dec.
              bind (p_sample_plms E x_dec neutral_conditioning positive_conditioning
                      guidance_scale ts sched index False False temperature 0 old_eps ts_next)
                (\<lambda>(x_dec, pred_x0, noise_prediction).
                   ret (x_dec, append_pop old_eps noise_prediction)))))"

text \<open>\<open>PLMSSampler.decode\<close>, for a call that gives the initial latent, as its callers
  do.\<close>

definition plms_decode ::
  "env \<Rightarrow> tensor \<Rightarrow> tensor \<Rightarrow> real \<Rightarrow> schedule \<Rightarrow> tensor \<Rightarrow> int option \<Rightarrow> real
     \<Rightarrow> tensor option \<Rightarrow> tensor option \<Rightarrow> tensor option \<Rightarrow> tensor io" where
  "plms_decode E neutral_conditioning positive_conditioning guidance_scale sched
       initial_latent t_start temperature mask_opt orig_latent noise =
     (let timesteps = slice_to (ddim_timesteps sched) t_start;
          time_range = rev timesteps;
          total_steps = length timesteps;
          x_dec = initial_latent
      in bind (case noise of None \<Rightarrow> randn_like x_dec | Some z \<Rightarrow> ret z) (\<lambda>noise.
         bind (for_loop
                 (plms_decode_body E neutral_conditioning positive_conditioning guidance_scale
                    sched initial_latent temperature mask_opt orig_latent noise time_range
                    total_steps)
                 (List.enumerate 0 time_range) (x_dec, []))
           (\<lambda>(x_dec, old_eps). ret x_dec)))"

section \<open>The spec's wording of two formulas\<close>

text \<open>
  The direction term as the spec words it, with the radicand clamped at zero:
  \<open>sqrt(max(0, 1 - a_prev - sigma_t^2)) * noise_pred\<close>.
\<close>

fun fmax :: "fl \<Rightarrow> fl \<Rightarrow> fl" where
  "fmax (Num x) (Num y) = Num (max x y)"
| "fmax _ _ = NaN"

definition dir_xt_spec :: "fl \<Rightarrow> fl \<Rightarrow> tensor \<Rightarrow> tensor" where
  "dir_xt_spec a_prev sigma_t noise_pred =
     smul (fsqrt (fmax (Num 0) (fsub (fsub (Num 1) a_prev) (fmul sigma_t sigma_t))))
       noise_pred"

text \<open>
  Forward noising as the spec words it, on the whole-range arrays of the schedule, which
  have one entry for each model timestep:
  \<open>sqrt_alphas_cumprod[t] * x_0 + sqrt_one_minus_alphas_cumprod[t] * noise\<close>.
\<close>

definition noise_an_image_spec ::
  "tensor \<Rightarrow> nat list \<Rightarrow> schedule \<Rightarrow> tensor \<Rightarrow> error + tensor" where
  "noise_an_image_spec x_0 t sched noise =
     (case extract_into_tensor (sqrt_alphas_cumprod sched) t of
        Inl e \<Rightarrow> Inl e
      | Inr c1 \<Rightarrow>
          (case extract_into_tensor (sqrt_one_minus_alphas_cumprod sched) t of
             Inl e \<Rightarrow> Inl e
           | Inr c2 \<Rightarrow> Inr (tadd (row_scale c1 x_0) (row_scale c2 noise))))"

section \<open>A small model to run the samplers on\<close>

text \<open>
  Modelled from the spec: \<open>make_ddim_timesteps\<close> of \<open>imaginairy.modules.diffusion.util\<close>
  in its uniform mode, which is not among the sources. The stride is
  \<open>num_ddpm_timesteps\<close> divided by \<open>num_ddim_timesteps\<close>, rounded down; the indices
  \<open>0, c, 2c, ...\<close> below \<open>num_ddpm_timesteps\<close> are each moved up by one.
\<close>

definition uniform_timesteps :: "string \<Rightarrow> nat \<Rightarrow> nat \<Rightarrow> error + nat list" where
  "uniform_timesteps method num_ddim_timesteps num_ddpm_timesteps =
     (if method \<noteq> ''uniform'' \<or> num_ddim_timesteps = 0 then Inl OtherError
      else
        let c = num_ddpm_timesteps div num_ddim_timesteps
        in if c = 0 then Inl OtherError
           else Inr (map (\<lambda>k. k * c + 1) [0..<(num_ddpm_timesteps + c - 1) div c]))"

text \<open>
  Modelled from the spec: \<open>q_sample\<close> of the diffusion model, which is not among the
  sources: \<open>x_t = sqrt_alphas_cumprod[t] * x_0 + sqrt_one_minus_alphas_cumprod[t] * noise\<close>
  over the model's timesteps, with fresh Gaussian noise when no noise is given.
\<close>

definition q_sample_ref :: "fl list \<Rightarrow> tensor \<Rightarrow> nat list \<Rightarrow> tensor option \<Rightarrow> tensor io" where
  "q_sample_ref alphacums x_start t noise =
     bind (case noise of None \<Rightarrow> randn_like x_start | Some z \<Rightarrow> ret z) (\<lambda>noise.
     bind (lift (extract_into_tensor (map fsqrt alphacums) t)) (\<lambda>c1.
     bind (lift (extract_into_tensor (map (\<lambda>a. fsqrt (fsub (Num 1) a)) alphacums) t)) (\<lambda>c2.
       ret (tadd (row_scale c1 x_start) (row_scale c2 noise)))))"

text \<open>
  A model of two timesteps with cumulative alphas \<open>16/25\<close> and \<open>9/25\<close>, whose noise
  prediction is the latent it is given, and whose dropout keeps every element.
\<close>

definition alphas2 :: "fl list" where
  "alphas2 = [Num (16 / 25), Num (9 / 25)]"

definition E2 :: env where
  "E2 = \<lparr>model_num_timesteps = 2,
         model_alphas_cumprod = alphas2,
         noise_prediction = (\<lambda>x ts neutral positive scale. x),
         q_sample = q_sample_ref alphas2,
         quantize = (\<lambda>x. x),
         make_ddim_timesteps = uniform_timesteps,
         dropout = (\<lambda>x p. ret x)\<rparr>"

text \<open>
  A schedule object of five steps for \<open>decode\<close>, which takes the schedule from its
  caller: every step is at model timestep 1, with \<open>alpha = 9/25\<close>, \<open>alpha_prev = 16/25\<close>
  and \<open>sigma = 0\<close>.
\<close>

definition sched5 :: schedule where
  "sched5 = \<lparr>alphas_cumprod = alphas2,
             ddim_timesteps = [1, 1, 1, 1, 1],
             sqrt_alphas_cumprod = [Num (4 / 5), Num (3 / 5)],
             sqrt_one_minus_alphas_cumprod = [Num (3 / 5), Num (4 / 5)],
             ddim_sigmas = [Num 0, Num 0, Num 0, Num 0, Num 0],
             ddim_alphas = [Num (9 / 25), Num (9 / 25), Num (9 / 25), Num (9 / 25), Num (9 / 25)],
             ddim_alphas_prev =
               [Num (16 / 25), Num (16 / 25), Num (16 / 25), Num (16 / 25), Num (16 / 25)],
             ddim_sqrt_one_minus_alphas =
               [Num (4 / 5), Num (4 / 5), Num (4 / 5), Num (4 / 5), Num (4 / 5)]\<rparr>"

text \<open>Two generators: one whose samples are all 0, one whose sample number \<open>k\<close> is
  \<open>k\<close>.\<close>

definition w_zero :: world where
  "w_zero = \<lparr>seed = (\<lambda>k. 0), pos = 0\<rparr>"

definition w_count :: world where
  "w_count = \<lparr>seed = (\<lambda>k. real k), pos = 0\<rparr>"

text \<open>The schedule that \<open>DDIMSchedule\<close> and \<open>PLMSSchedule\<close> build for this model and
  one step.\<close>

definition sched2 :: schedule where
  "sched2 = \<lparr>alphas_cumprod = alphas2,
             ddim_timesteps = [1],
             sqrt_alphas_cumprod = [Num (4 / 5), Num (3 / 5)],
             sqrt_one_minus_alphas_cumprod = [Num (3 / 5), Num (4 / 5)],
             ddim_sigmas = [Num 0],
             ddim_alphas = [Num (9 / 25)],
             ddim_alphas_prev = [Num (16 / 25)],
             ddim_sqrt_one_minus_alphas = [Num (4 / 5)]\<rparr>"

section \<open>Predicates on tensors\<close>

text \<open>No element is not-a-number.\<close>

definition all_num :: "tensor \<Rightarrow> bool" where
  "all_num x = list_all (list_all (\<lambda>v. v \<noteq> NaN)) x"

text \<open>The same batch size and the same number of elements in each batch entry.\<close>

definition same_shape :: "tensor \<Rightarrow> tensor \<Rightarrow> bool" where
  "same_shape x y = (map length x = map length y)"

text \<open>The tensor of the shape of \<open>x\<close> whose elements are all \<open>c\<close>: a mask of all zeros
  or all ones.\<close>

definition const_like :: "real \<Rightarrow> tensor \<Rightarrow> tensor" where
  "const_like c x = tmap (\<lambda>v. Num c) x"

section \<open>Basic facts\<close>

subsection \<open>Arithmetic and effects\<close>

lemma fmul_NaN_left [simp]: "fmul NaN v = NaN"
  by simp

lemma fmul_NaN_right [simp]: "fmul v NaN = NaN"
  by (cases v) simp_all

lemma bind_ret [simp]: "bind (ret a) f = f a"
  by (rule ext) (simp add: bind_def ret_def)

lemma bind_raise [simp]: "bind (raise e) f = raise e"
  by (rule ext) (simp add: bind_def raise_def)

lemma bind_lift_Inr [simp]: "bind (lift (Inr a)) f = f a"
  by (rule ext) (simp add: bind_def lift_def)

lemma bind_lift_Inl [simp]: "bind (lift (Inl e)) f = raise e"
  by (rule ext) (simp add: bind_def lift_def raise_def)

lemma bind_assoc: "bind (bind m f) g = bind m (\<lambda>a. bind (f a) g)"
  by (rule ext) (simp add: bind_def split: prod.splits sum.splits)

subsection \<open>The small model\<close>

lemma sqrt_16_25: "sqrt (16 / 25) = 4 / 5"
  by (rule real_sqrt_unique) (simp_all add: power2_eq_square)

lemma sqrt_9_25: "sqrt (9 / 25) = 3 / 5"
  by (rule real_sqrt_unique) (simp_all add: power2_eq_square)

subsection \<open>Gathering from an array\<close>

lemma map_err_all:
  "list_all (\<lambda>k. k < length a) ks \<Longrightarrow> map_err (index_at a) ks = Inr (map ((!) a) ks)"
  by (induction ks) (simp_all add: index_at_def)

lemma map_err_fail:
  "\<not> list_all (\<lambda>k. k < length a) ks \<Longrightarrow> map_err (index_at a) ks = Inl IndexError"
  by (induction ks) (auto simp add: index_at_def split: sum.splits)

lemma map_err_length: "map_err f xs = Inr ys \<Longrightarrow> length ys = length xs"
  by (induction xs arbitrary: ys) (auto split: sum.splits)

text \<open>The schedule of the small model is the one that its constructors build.\<close>

lemma sched2_built:
  "DDIMSchedule E2 2 alphas2 1 ''uniform'' 0 = Inr sched2
   \<and> PLMSSchedule E2 2 alphas2 1 ''uniform'' = Inr sched2"
  by (simp add: DDIMSchedule_def PLMSSchedule_def E2_def alphas2_def uniform_timesteps_def
      make_ddim_sampling_parameters_def index_at_def sigma_of_def sqrt_16_25 sqrt_9_25
      sched2_def)

subsection \<open>Drawing noise\<close>

lemma noise_like_returns:
  "\<exists>z. noise_like sh rep w
         = (Inr z, w\<lparr>pos := pos w + (if rep then 1 else fst sh) * snd sh\<rparr>)"
  by (cases sh) (simp add: noise_like_def randn_def bind_def ret_def)

subsection \<open>Loops and the history\<close>

text \<open>A property that every iteration keeps holds after the loop, if it held before.\<close>

lemma for_loop_invariant:
  assumes step: "\<And>item s w s' w'. P s \<Longrightarrow> body item s w = (Inr s', w') \<Longrightarrow> P s'"
  shows "P s \<Longrightarrow> for_loop body items s w = (Inr s', w') \<Longrightarrow> P s'"
proof (induction items arbitrary: s w)
  case Nil
  then show ?case by (simp add: ret_def)
next
  case (Cons item items)
  from Cons.prems(2) obtain s1 w1 where b: "body item s w = (Inr s1, w1)"
    and r: "for_loop body items s1 w1 = (Inr s', w')"
    by (auto simp add: bind_def split: prod.splits sum.splits)
  from step [OF Cons.prems(1) b] have "P s1" .
  from Cons.IH [OF this r] show ?case .
qed

lemma append_pop_alt:
  "append_pop old e = (if 3 \<le> length old then tl old @ [e] else old @ [e])"
  by (cases old) (auto simp add: append_pop_def Let_def)

lemma append_pop_length: "length old \<le> 3 \<Longrightarrow> length (append_pop old e) \<le> 3"
  by (simp add: append_pop_alt)

lemma bind_Inr_iff:
  "bind m f w = (Inr r, w') \<longleftrightarrow> (\<exists>a w1. m w = (Inr a, w1) \<and> f a w1 = (Inr r, w'))"
  by (auto simp add: bind_def split: prod.splits sum.splits)

lemma p_sample_plms_raw:
  "p_sample_plms E x nc pc g ts sc i rep q temp nd old t_next w = (Inr (x', p0, e), w')
     \<Longrightarrow> e = noise_prediction E x ts nc pc g"
  by (auto simp add: p_sample_plms_def Let_def raise_def bind_Inr_iff ret_def split: if_splits)

lemma plms_sample_body_history:
  "plms_sample_body E nc pc g b m orig temp nd q sc tr tot (i, step) (x, old) w = (Inr (x', h), w')
   \<Longrightarrow> \<exists>xc w1. sample_mask_block E m orig (replicate b step) x w = (Inr xc, w1)
          \<and> h = append_pop old (noise_prediction E xc (replicate b step) nc pc g)"
  by (auto simp add: plms_sample_body_def Let_def bind_Inr_iff ret_def lift_def
      dest!: p_sample_plms_raw)

lemma plms_decode_body_history:
  "plms_decode_body E nc pc g sc x0 temp m orig z tr tot (i, step) (x, old) w = (Inr (x', h), w')
   \<Longrightarrow> \<exists>xc w1. decode_mask_block E m orig (Some z) i (replicate (length x0) step) x w = (Inr xc, w1)
          \<and> h = append_pop old (noise_prediction E xc (replicate (length x0) step) nc pc g)"
  by (auto simp add: plms_decode_body_def Let_def bind_Inr_iff ret_def lift_def
      dest!: p_sample_plms_raw)

subsection \<open>Which collaborator a step calls\<close>

text \<open>The steps of both samplers do not call \<open>q_sample\<close>; only the mask blocks do.\<close>

lemma get_x_prev_q_sample [simp]:
  "get_x_prev_and_pred_x0 (E\<lparr>q_sample := f\<rparr>) = get_x_prev_and_pred_x0 E"
  by (intro ext) (simp add: get_x_prev_and_pred_x0_def Let_def cong: if_cong)

lemma e_t_prime_q_sample [simp]: "e_t_prime (E\<lparr>q_sample := f\<rparr>) = e_t_prime E"
  by (intro ext) (simp add: e_t_prime_def Let_def cong: if_cong)

lemma p_sample_plms_q_sample [simp]: "p_sample_plms (E\<lparr>q_sample := f\<rparr>) = p_sample_plms E"
  by (intro ext) (simp add: p_sample_plms_def Let_def cong: if_cong)

lemma p_sample_ddim_q_sample [simp]: "p_sample_ddim (E\<lparr>q_sample := f\<rparr>) = p_sample_ddim E"
  by (intro ext) (simp add: p_sample_ddim_def p_sample_ddim_formula_def Let_def cong: if_cong)

lemma decode_mask_block_q_sample:
  "decode_mask_block (E\<lparr>q_sample := \<lambda>y t n. q_sample E y t noise\<rparr>) m orig noise
     = decode_mask_block E m orig noise"
  by (intro ext) (simp add: decode_mask_block_def cong: option.case_cong)

text \<open>The definitions that a run on the small model unfolds.\<close>

lemmas run_defs = plms_sample_body_def plms_decode_body_def sample_mask_block_def
  decode_mask_block_def p_sample_plms_def e_t_prime_def get_x_prev_and_pred_x0_def
  ddim_sample_body_def ddim_decode_body_def p_sample_ddim_def p_sample_ddim_formula_def
  composite_def with_hints_def hint_strength_def rsub_def tmul_def
  E2_def sched5_def sched2_def w_zero_def w_count_def index_at_def append_pop_def
  noise_like_def shape_of_def randn_like_def randn_def bind_def ret_def lift_def raise_def
  dir_xt_def sdiv_def tsub_def tadd_def smul_def tscale_def tmap_def tzip_def Let_def
  sqrt_16_25 sqrt_9_25

lemmas sched_defs = DDIMSchedule_def PLMSSchedule_def uniform_timesteps_def
  make_ddim_sampling_parameters_def sigma_of_def alphas2_def q_sample_ref_def
  extract_into_tensor_def row_scale_def slice_to_def

subsection \<open>The two loops of DDIM without a mask\<close>

lemma p_sample_ddim_no_dropout:
  "nd \<le> 0 \<Longrightarrow> p_sample_ddim E x nc pc g ts i sc rep q temp nd
                = p_sample_ddim E x nc pc g ts i sc rep False temp 0"
  by (simp add: p_sample_ddim_def p_sample_ddim_formula_def Let_def cong: if_cong)

lemma ddim_bodies_agree:
  "nd \<le> 0 \<Longrightarrow>
   ddim_decode_body E x0 nc pc g sc temp None orig tot
     = ddim_sample_body E nc pc g (length x0) None orig' temp nd q sc tot"
  by (intro ext)
     (simp add: ddim_decode_body_def ddim_sample_body_def decode_mask_block_def
        sample_mask_block_def p_sample_ddim_no_dropout [of nd _ _ _ _ _ _ _ _ _ q]
        split: prod.splits)

subsection \<open>Compositing with a constant mask\<close>

lemma fadd_zero_left [simp]: "fadd (Num 0) v = v"
  by (cases v) simp_all

lemma fmul_one_left [simp]: "fmul (Num 1) v = v"
  by (cases v) simp_all

lemma row_mask_zero:
  "length kr = length xr \<Longrightarrow> list_all (\<lambda>v. v \<noteq> NaN) kr \<Longrightarrow>
   map2 fadd (map2 fmul kr (map (\<lambda>v. Num 0) xr))
             (map2 fmul (map (\<lambda>v. Num 1) xr) xr) = xr"
proof (induction kr xr rule: list_induct2)
  case Nil
  then show ?case by simp
next
  case (Cons k kr v xr)
  then show ?case by (cases k) simp_all
qed

lemma row_mask_one:
  "length kr = length xr \<Longrightarrow> list_all (\<lambda>v. v \<noteq> NaN) xr \<Longrightarrow>
   map2 fadd (map2 fmul kr (map (\<lambda>v. Num 1) xr))
             (map2 fmul (map (\<lambda>v. Num 0) xr) xr) = kr"
proof (induction kr xr rule: list_induct2)
  case Nil
  then show ?case by simp
next
  case (Cons k kr v xr)
  then show ?case by (cases k; cases v) simp_all
qed

lemma same_shape_length: "same_shape a b \<Longrightarrow> length a = length b"
  by (simp add: same_shape_def) (metis length_map)

lemma composite_zero:
  "all_num known \<Longrightarrow> same_shape known x \<Longrightarrow> composite known (const_like 0 x) x = x"
proof -
  assume an: "all_num known" and ss: "same_shape known x"
  from same_shape_length [OF ss] an ss show ?thesis
  proof (induction known x rule: list_induct2)
    case Nil
    then show ?case
      by (simp add: composite_def const_like_def tadd_def tmul_def rsub_def tzip_def tmap_def)
  next
    case (Cons kr known xr x)
    then show ?case
      by (simp add: composite_def const_like_def tadd_def tmul_def rsub_def tzip_def tmap_def
            all_num_def same_shape_def row_mask_zero comp_def)
  qed
qed

lemma composite_one:
  "all_num x \<Longrightarrow> same_shape known x \<Longrightarrow> composite known (const_like 1 x) x = known"
proof -
  assume an: "all_num x" and ss: "same_shape known x"
  from same_shape_length [OF ss] an ss show ?thesis
  proof (induction known x rule: list_induct2)
    case Nil
    then show ?case
      by (simp add: composite_def const_like_def tadd_def tmul_def rsub_def tzip_def tmap_def)
  next
    case (Cons kr known xr x)
    then show ?case
      by (simp add: composite_def const_like_def tadd_def tmul_def rsub_def tzip_def tmap_def
            all_num_def same_shape_def row_mask_one comp_def)
  qed
qed

lemma row_hints_num:
  "length kr = length orr \<Longrightarrow> list_all (\<lambda>v. v \<noteq> NaN) kr \<Longrightarrow> list_all (\<lambda>v. v \<noteq> NaN) orr \<Longrightarrow>
   list_all (\<lambda>v. v \<noteq> NaN) (map2 fadd (map (\<lambda>v. fmul v (Num a)) kr) (map (\<lambda>v. fmul v (Num b)) orr))"
proof (induction kr orr rule: list_induct2)
  case Nil
  then show ?case by simp
next
  case (Cons k kr v orr)
  then show ?case by (cases k; cases v) simp_all
qed

lemma with_hints_shape:
  "same_shape known x \<Longrightarrow> same_shape orig x \<Longrightarrow> same_shape (with_hints i known orig) x"
proof -
  assume a: "same_shape known x" and b: "same_shape orig x"
  have "map length (tadd (tscale known c) (tscale orig d)) = map length x" for c d
    using same_shape_length [OF a] same_shape_length [OF b] a b
  proof (induction known x arbitrary: orig rule: list_induct2)
    case Nil
    then show ?case by (simp add: tadd_def tzip_def tscale_def tmap_def)
  next
    case (Cons kr known xr x)
    then obtain orr orig' where o: "orig = orr # orig'" by (cases orig) auto
    with Cons show ?case
      by (simp add: tadd_def tzip_def tscale_def tmap_def same_shape_def)
  qed
  with a show ?thesis by (simp add: with_hints_def same_shape_def)
qed

lemma with_hints_num:
  "all_num known \<Longrightarrow> all_num orig \<Longrightarrow> same_shape known x \<Longrightarrow> same_shape orig x
     \<Longrightarrow> all_num (with_hints i known orig)"
proof -
  assume an: "all_num known" and ao: "all_num orig"
    and a: "same_shape known x" and b: "same_shape orig x"
  have "all_num (tadd (tscale known (Num c)) (tscale orig (Num d)))" for c d
    using same_shape_length [OF a] same_shape_length [OF b] a b an ao
  proof (induction known x arbitrary: orig rule: list_induct2)
    case Nil
    then show ?case by (simp add: tadd_def tzip_def tscale_def tmap_def all_num_def)
  next
    case (Cons kr known xr x)
    then obtain orr orig' where o: "orig = orr # orig'" by (cases orig) auto
    from Cons o have r: "list_all (\<lambda>v. v \<noteq> NaN)
        (map2 fadd (map (\<lambda>v. fmul v (Num c)) kr) (map (\<lambda>v. fmul v (Num d)) orr))"
      by (intro row_hints_num) (simp_all add: same_shape_def all_num_def)
    from Cons o have "all_num (tadd (tscale known (Num c)) (tscale orig' (Num d)))"
      by (simp add: same_shape_def all_num_def)
    with r o show ?case
      by (simp add: tadd_def tzip_def tscale_def tmap_def all_num_def)
  qed
  with an show ?thesis by (simp add: with_hints_def)
qed


subsection \<open>The sigmas for \<open>eta = 0\<close>\<close>

lemma map_err_nth:
  "map_err f xs = Inr ys \<Longrightarrow>
     length ys = length xs \<and> (\<forall>i < length xs. f (xs ! i) = Inr (ys ! i))"
proof (induction xs arbitrary: ys)
  case Nil
  then show ?case by simp
next
  case (Cons x xs)
  from Cons.prems obtain y ys' where y: "f x = Inr y" and r: "map_err f xs = Inr ys'"
    and ys: "ys = y # ys'"
    by (auto split: sum.splits)
  from Cons.IH [OF r] y ys show ?case
    by (auto simp add: nth_Cons split: nat.splits)
qed

lemma sigma_of_zero_cases: "sigma_of 0 a ap = Num 0 \<or> sigma_of 0 a ap = NaN"
proof (cases "fsqrt (fmul (fdiv (fsub (Num 1) ap) (fsub (Num 1) a)) (fsub (Num 1) (fdiv a ap)))")
  case (Num r)
  then show ?thesis by (simp add: sigma_of_def)
next
  case NaN
  then show ?thesis by (simp add: sigma_of_def)
qed

lemma sigma_of_zero:
  assumes "0 < a" "a < 1" "0 < ap" "ap < 1" "a \<le> ap"
  shows "sigma_of 0 (Num a) (Num ap) = Num 0"
proof -
  have 1: "0 \<le> (1 - ap) / (1 - a)" using assms by simp
  have 2: "0 \<le> 1 - a / ap" using assms by simp
  from 1 2 have "0 \<le> (1 - ap) / (1 - a) * (1 - a / ap)" by (rule mult_nonneg_nonneg)
  then have "\<not> (1 - ap) / (1 - a) * (1 - a / ap) < 0" by simp
  with assms show ?thesis by (simp add: sigma_of_def)
qed

lemma schedule_fields:
  "DDIMSchedule E T al n d eta = Inr sc \<Longrightarrow>
   \<exists>alphas alphas_prev.
     make_ddim_sampling_parameters al (ddim_timesteps sc) eta
       = Inr (map2 (sigma_of eta) alphas alphas_prev, alphas, alphas_prev)
     \<and> ddim_sigmas sc = map2 (sigma_of eta) alphas alphas_prev
     \<and> map_err (index_at al) (ddim_timesteps sc) = Inr alphas
     \<and> map_err (\<lambda>i. if i = 0 then index_at al 0 else index_at alphas (i - 1))
          [0..<length (ddim_timesteps sc)] = Inr alphas_prev"
  by (auto simp add: DDIMSchedule_def make_ddim_sampling_parameters_def
        split: if_splits sum.splits)

lemma eta_zero_sigmas_cases:
  "DDIMSchedule E T al n d 0 = Inr sc \<Longrightarrow> \<forall>s \<in> set (ddim_sigmas sc). s = Num 0 \<or> s = NaN"
proof -
  assume "DDIMSchedule E T al n d 0 = Inr sc"
  from schedule_fields [OF this] obtain alphas alphas_prev
    where "ddim_sigmas sc = map2 (sigma_of 0) alphas alphas_prev" by blast
  then show ?thesis using sigma_of_zero_cases by (auto simp add: set_zip)
qed

lemma eta_zero_sigmas:
  assumes sc: "DDIMSchedule E T (map Num al) n d 0 = Inr sc"
    and rng: "\<forall>a \<in> set al. 0 < a \<and> a < 1"
    and dec: "sorted_wrt (\<lambda>a b. b \<le> a) al"
    and ts: "sorted (ddim_timesteps sc)"
  shows "ddim_sigmas sc = replicate (length (ddim_timesteps sc)) (Num 0)"
proof -
  let ?ts = "ddim_timesteps sc"
  from schedule_fields [OF sc] obtain alphas alphas_prev
    where sg: "ddim_sigmas sc = map2 (sigma_of 0) alphas alphas_prev"
      and al: "map_err (index_at (map Num al)) ?ts = Inr alphas"
      and ap: "map_err (\<lambda>i. if i = 0 then index_at (map Num al) 0 else index_at alphas (i - 1))
                 [0..<length ?ts] = Inr alphas_prev"
    by blast
  from map_err_nth [OF al] have la: "length alphas = length ?ts"
    and na: "\<And>i. i < length ?ts \<Longrightarrow> index_at (map Num al) (?ts ! i) = Inr (alphas ! i)"
    by auto
  from map_err_nth [OF ap] have lp: "length alphas_prev = length ?ts"
    and np: "\<And>i. i < length ?ts \<Longrightarrow>
               (if i = 0 then index_at (map Num al) 0 else index_at alphas (i - 1))
                 = Inr (alphas_prev ! i)"
    by auto
  have in_range: "?ts ! i < length al \<and> alphas ! i = Num (al ! (?ts ! i))"
    if "i < length ?ts" for i
    using na [OF that] by (auto simp add: index_at_def split: if_splits)
  have mono: "al ! k \<le> al ! j" if "j \<le> k" "k < length al" for j k
  proof (cases "j = k")
    case True
    then show ?thesis by simp
  next
    case False
    with that have "j < k" by simp
    from sorted_wrt_nth_less [OF dec this that(2)] show ?thesis .
  qed
  have unit: "0 < al ! k \<and> al ! k < 1" if "k < length al" for k
    using rng that by (simp add: all_set_conv_all_nth)
  have each: "sigma_of 0 (alphas ! i) (alphas_prev ! i) = Num 0" if i: "i < length ?ts" for i
  proof (cases "i = 0")
    case True
    from in_range [OF i] have r: "?ts ! i < length al" and a: "alphas ! i = Num (al ! (?ts ! i))"
      by auto
    from r have pos: "0 < length al" by (cases al) simp_all
    from np [OF i] True pos have p: "alphas_prev ! i = Num (al ! 0)"
      by (simp add: index_at_def)
    from mono [of 0 "?ts ! i"] r have "al ! (?ts ! i) \<le> al ! 0" by simp
    with unit [OF r] unit [OF pos] a p show ?thesis by (simp add: sigma_of_zero)
  next
    case False
    then have i1: "i - 1 < length ?ts" and lt: "i - 1 \<le> i" using i by auto
    from in_range [OF i] have r: "?ts ! i < length al" and a: "alphas ! i = Num (al ! (?ts ! i))"
      by auto
    from in_range [OF i1] have r1: "?ts ! (i - 1) < length al"
      and a1: "alphas ! (i - 1) = Num (al ! (?ts ! (i - 1)))"
      by auto
    from np [OF i] False i1 la a1 have p: "alphas_prev ! i = Num (al ! (?ts ! (i - 1)))"
      by (simp add: index_at_def)
    from sorted_nth_mono [OF ts lt i] have "?ts ! (i - 1) \<le> ?ts ! i" .
    from mono [OF this r] have "al ! (?ts ! i) \<le> al ! (?ts ! (i - 1))" .
    with unit [OF r] unit [OF r1] a p show ?thesis by (simp add: sigma_of_zero)
  qed
  show ?thesis
  proof (rule nth_equalityI)
    show "length (ddim_sigmas sc) = length (replicate (length ?ts) (Num 0))"
      by (simp add: sg la lp)
  next
    fix i
    assume "i < length (ddim_sigmas sc)"
    then have i: "i < length ?ts" by (simp add: sg la lp)
    with each [OF i] show "ddim_sigmas sc ! i = replicate (length ?ts) (Num 0) ! i"
      by (simp add: sg la lp)
  qed
qed



subsection \<open>Independence of the generator\<close>

text \<open>
  With a sigma that is zero or not-a-number the scaled noise is a constant tensor, so a
  step returns the same value from every generator state; a loop of such steps does too.
\<close>

lemma scaled_noise_const:
  "sigma = Num 0 \<or> sigma = NaN \<Longrightarrow>
   \<exists>c. \<forall>w. \<exists>z. noise_like sh rep w
            = (Inr z, w\<lparr>pos := pos w + (if rep then 1 else fst sh) * snd sh\<rparr>)
          \<and> tscale (smul sigma z) (Num temp) = c"
proof -
  assume s: "sigma = Num 0 \<or> sigma = NaN"
  obtain b n where sh: "sh = (b, n)" by (cases sh)
  let ?c = "replicate b (replicate n sigma)"
  have "\<forall>w. \<exists>z. noise_like sh rep w
            = (Inr z, w\<lparr>pos := pos w + (if rep then 1 else fst sh) * snd sh\<rparr>)
          \<and> tscale (smul sigma z) (Num temp) = ?c"
  proof
    fix w
    show "\<exists>z. noise_like sh rep w
            = (Inr z, w\<lparr>pos := pos w + (if rep then 1 else fst sh) * snd sh\<rparr>)
          \<and> tscale (smul sigma z) (Num temp) = ?c"
    proof (cases rep)
      case True
      have "concat (replicate b [replicate n sigma]) = ?c"
        by (induction b) simp_all
      with s sh True show ?thesis
        by (auto simp add: noise_like_def randn_def bind_def ret_def tscale_def smul_def
              tmap_def comp_def map_concat map_replicate_const)
    next
      case False
      with s sh show ?thesis
        by (auto simp add: noise_like_def randn_def tscale_def smul_def tmap_def comp_def
              map_replicate_const)
    qed
  qed
  then show ?thesis by blast
qed

lemma formula_indep:
  assumes s: "sigma = Num 0 \<or> sigma = NaN" and nd: "nd \<le> 0"
  shows "fst (p_sample_ddim_formula E x e s1m a_t sigma a_prev nd rep temp w)
           = fst (p_sample_ddim_formula E x e s1m a_t sigma a_prev nd rep temp w')
         \<and> snd (p_sample_ddim_formula E x e s1m a_t sigma a_prev nd rep temp w)
           = w\<lparr>pos := pos w + (if rep then 1 else fst (shape_of x)) * snd (shape_of x)\<rparr>"
proof -
  from scaled_noise_const [OF s, of "shape_of x" rep temp] obtain c
    where c: "\<And>w. \<exists>z. noise_like (shape_of x) rep w
            = (Inr z, w\<lparr>pos := pos w + (if rep then 1 else fst (shape_of x)) * snd (shape_of x)\<rparr>)
          \<and> tscale (smul sigma z) (Num temp) = c"
    by blast
  from c [of w] obtain z where z: "noise_like (shape_of x) rep w
            = (Inr z, w\<lparr>pos := pos w + (if rep then 1 else fst (shape_of x)) * snd (shape_of x)\<rparr>)"
    and zc: "tscale (smul sigma z) (Num temp) = c" by blast
  from c [of w'] obtain z' where z': "noise_like (shape_of x) rep w'
            = (Inr z', w'\<lparr>pos := pos w' + (if rep then 1 else fst (shape_of x)) * snd (shape_of x)\<rparr>)"
    and zc': "tscale (smul sigma z') (Num temp) = c" by blast
  from nd z zc z' zc' show ?thesis
    by (simp add: p_sample_ddim_formula_def Let_def bind_def ret_def)
qed

lemma p_sample_ddim_indep:
  assumes sg: "\<forall>s \<in> set (ddim_sigmas sc). s = Num 0 \<or> s = NaN" and nd: "nd \<le> 0"
  shows "fst (p_sample_ddim E x nc pc g ts i sc rep q temp nd w)
           = fst (p_sample_ddim E x nc pc g ts i sc rep q temp nd w')"
proof (cases "i < length (ddim_sigmas sc)")
  case True
  with sg have "ddim_sigmas sc ! i = Num 0 \<or> ddim_sigmas sc ! i = NaN" by simp
  from formula_indep [OF this nd] True show ?thesis
    by (simp add: p_sample_ddim_def Let_def index_at_def raise_def)
next
  case False
  then show ?thesis
    by (simp add: p_sample_ddim_def Let_def index_at_def raise_def)
qed

lemma for_loop_indep:
  assumes body: "\<And>item s w w'. fst (body item s w) = fst (body item s w')"
  shows "fst (for_loop body items s w) = fst (for_loop body items s w')"
proof (induction items arbitrary: s w w')
  case Nil
  then show ?case by (simp add: ret_def)
next
  case (Cons item items)
  obtain r w1 where 1: "body item s w = (r, w1)" by (cases "body item s w")
  obtain r' w1' where 2: "body item s w' = (r', w1')" by (cases "body item s w'")
  from body [of item s w w'] 1 2 have rr: "r' = r" by simp
  show ?case
  proof (cases r)
    case (Inl e)
    with 1 2 rr show ?thesis by (simp add: bind_def)
  next
    case (Inr s1)
    with 1 2 rr Cons.IH [of s1 w1 w1'] show ?thesis by (simp add: bind_def)
  qed
qed

lemma ddim_sample_body_indep:
  assumes sg: "\<forall>s \<in> set (ddim_sigmas sc). s = Num 0 \<or> s = NaN" and nd: "nd \<le> 0"
  shows "fst (ddim_sample_body E nc pc g b None orig temp nd q sc tot item x w)
           = fst (ddim_sample_body E nc pc g b None orig temp nd q sc tot item x w')"
proof -
  obtain i step where item: "item = (i, step)" by (cases item)
  let ?p = "p_sample_ddim E x nc pc g (replicate b step) (tot - i - 1) sc False q temp nd"
  obtain r w1 where 1: "?p w = (r, w1)" by (cases "?p w")
  obtain r' w1' where 2: "?p w' = (r', w1')" by (cases "?p w'")
  from p_sample_ddim_indep [OF sg nd, of E x nc pc g "replicate b step" "tot - i - 1" False q temp w w']
    1 2 have "r' = r" by simp
  with 1 2 show ?thesis
    by (cases r)
       (simp_all add: item ddim_sample_body_def sample_mask_block_def Let_def bind_def ret_def
          split: prod.splits)
qed

lemma ddim_sample_indep:
  assumes nd: "nd \<le> 0"
  shows "fst (ddim_sample E n sh nc pc g b None orig temp nd (Some x0) q w)
           = fst (ddim_sample E n sh nc pc g b None orig temp nd (Some x0) q w')"
proof (cases "DDIMSchedule E (model_num_timesteps E) (model_alphas_cumprod E) n ''uniform'' 0")
  case (Inl e)
  then show ?thesis by (simp add: ddim_sample_def raise_def)
next
  case (Inr sc)
  from eta_zero_sigmas_cases [OF Inr]
  have sg: "\<forall>s \<in> set (ddim_sigmas sc). s = Num 0 \<or> s = NaN" .
  have "fst (for_loop (ddim_sample_body E nc pc g b None orig temp nd q sc
                         (length (ddim_timesteps sc)))
               (List.enumerate 0 (rev (ddim_timesteps sc))) x0 w)
        = fst (for_loop (ddim_sample_body E nc pc g b None orig temp nd q sc
                         (length (ddim_timesteps sc)))
               (List.enumerate 0 (rev (ddim_timesteps sc))) x0 w')"
    by (rule for_loop_indep) (rule ddim_sample_body_indep [OF sg nd])
  with Inr show ?thesis by (simp add: ddim_sample_def raise_def Let_def)
qed


section \<open>The direction term\<close>

text \<open>
  C1, against the claim as it is stated: with \<open>a_prev = 1/2\<close> and \<open>sigma_t = 1\<close> the
  radicand is \<open>-1/2\<close>; the direction term of the source is not-a-number, where the
  clamped formula of the spec gives zero. The step formula returns, with a next latent
  that is not-a-number.
\<close>

theorem dir_xt_clamp_counterexample:
  "(1::real) - 1 / 2 - 1 * 1 < 0
   \<and> dir_xt (Num (1 / 2)) (Num 1) [[Num 1]] = [[NaN]]
   \<and> dir_xt_spec (Num (1 / 2)) (Num 1) [[Num 1]] = [[Num 0]]
   \<and> dir_xt (Num (1 / 2)) (Num 1) [[Num 1]] \<noteq> dir_xt_spec (Num (1 / 2)) (Num 1) [[Num 1]]
   \<and> p_sample_ddim_formula E2 [[Num 1]] [[Num 1]] (Num 0) (Num 1) (Num 1) (Num (1 / 2)) 0 False 1
        w_zero
      = (Inr ([[NaN]], [[Num 1]]), w_zero\<lparr>pos := 1\<rparr>)"
  by (simp add: run_defs dir_xt_spec_def)

text \<open>
  C1, amended: the direction term is \<open>sqrt(1 - a_prev - sigma_t^2) * noise_pred\<close> with no
  clamp. Where the radicand is not negative this is the square root times the noise
  prediction; where it is negative every element of the direction term is not-a-number.
  In both cases the step formula raises nothing (without dropout, which is the only
  collaborator it calls), and so does the local step of PLMS at an index that the
  schedule has.
\<close>

theorem dir_xt_unclamped:
  "(0 \<le> 1 - a - s * s \<longrightarrow>
      dir_xt (Num a) (Num s) e = smul (Num (sqrt (1 - a - s * s))) e)
   \<and> (1 - a - s * s < 0 \<longrightarrow> dir_xt (Num a) (Num s) e = tmap (\<lambda>v. NaN) e)
   \<and> (nd \<le> 0 \<longrightarrow>
        (\<exists>r w'. p_sample_ddim_formula E x e c a_t (Num s) (Num a) nd rep temp w = (Inr r, w')))
   \<and> (nd \<le> 0 \<and> i < length (ddim_alphas sc) \<and> i < length (ddim_alphas_prev sc)
        \<and> i < length (ddim_sigmas sc) \<and> i < length (ddim_sqrt_one_minus_alphas sc) \<longrightarrow>
        (\<exists>r w'. get_x_prev_and_pred_x0 E x sc rep q temp nd e i w = (Inr r, w')))"
proof -
  obtain z where z: "noise_like (shape_of x) rep w
      = (Inr z, w\<lparr>pos := pos w + (if rep then 1 else fst (shape_of x)) * snd (shape_of x)\<rparr>)"
    using noise_like_returns by blast
  have "nd \<le> 0 \<Longrightarrow>
      \<exists>r w'. p_sample_ddim_formula E x e c a_t (Num s) (Num a) nd rep temp w = (Inr r, w')"
    by (simp add: p_sample_ddim_formula_def Let_def bind_def z ret_def)
  moreover have "nd \<le> 0 \<Longrightarrow> i < length (ddim_alphas sc) \<Longrightarrow> i < length (ddim_alphas_prev sc)
        \<Longrightarrow> i < length (ddim_sigmas sc) \<Longrightarrow> i < length (ddim_sqrt_one_minus_alphas sc) \<Longrightarrow>
        \<exists>r w'. get_x_prev_and_pred_x0 E x sc rep q temp nd e i w = (Inr r, w')"
    by (simp add: get_x_prev_and_pred_x0_def index_at_def Let_def) (simp add: bind_def z ret_def)
  ultimately show ?thesis
    by (simp add: dir_xt_def smul_def tmap_def)
qed

theorem dir_xt_unclamped_witness:
  "dir_xt (Num 0) (Num 0) [[Num 3]] = [[Num 3]]
   \<and> dir_xt (Num (1 / 2)) (Num 1) [[Num 3]] = [[NaN]]
   \<and> (\<exists>r w'. p_sample_ddim_formula E2 [[Num 1]] [[Num 3]] (Num 0) (Num 1) (Num 1) (Num (1 / 2))
                 0 False 1 w_zero = (Inr r, w'))
   \<and> (\<exists>r w'. get_x_prev_and_pred_x0 E2 [[Num 1]] sched5 False False 1 0 [[Num 3]] 0 w_zero
                 = (Inr r, w'))"
  using dir_xt_unclamped [of 0 0 "[[Num 3]]" 0 E2 "[[Num 1]]" "Num 0" "Num 1" False 1 w_zero]
    dir_xt_unclamped [of "1 / 2" 1 "[[Num 3]]" 0 E2 "[[Num 1]]" "Num 0" "Num 1" False 1 w_zero
       0 sched5 False]
  by (simp add: smul_def tmap_def sched5_def)

section \<open>The check of the conditioning batch\<close>

text \<open>
  C8: when the batch dimension of \<open>positive_conditioning\<close> differs from \<open>batch_size\<close>,
  \<open>sample\<close> of either sampler raises its \<open>ValueError\<close> and leaves the random generator
  as it found it: no schedule is built, no initial latent is drawn, no iteration runs.
\<close>

theorem sample_conditioning_mismatch:
  "length pc \<noteq> b \<Longrightarrow>
   ddim_sample E n sh nc pc g b m orig temp nd init q w
     = (Inl (ValueError_conditionings (length pc) b), w)
   \<and> plms_sample E n sh nc pc g b m orig temp nd init q w
     = (Inl (ValueError_conditionings (length pc) b), w)"
  by (simp add: ddim_sample_def plms_sample_def raise_def)

theorem sample_conditioning_mismatch_witness:
  "length [[Num 1], [Num 1]] \<noteq> (1::nat)
   \<and> ddim_sample E2 1 (1, 1) [[Num 1]] [[Num 1], [Num 1]] 1 1 None None 1 0 None False w_zero
     = (Inl (ValueError_conditionings 2 1), w_zero)
   \<and> plms_sample E2 1 (1, 1) [[Num 1]] [[Num 1], [Num 1]] 1 1 None None 1 0 None False w_zero
     = (Inl (ValueError_conditionings 2 1), w_zero)"
  using sample_conditioning_mismatch
    [of "[[Num 1], [Num 1]]" 1 E2 1 "(1, 1)" "[[Num 1]]" 1 None None 1 0 None False w_zero]
  by simp

section \<open>The corrected noise prediction of PLMS\<close>

text \<open>
  C3: \<open>p_sample_plms\<close> evaluates the noise prediction at the current latent and
  timestep, corrects it, and takes the step with the corrected value. With an empty
  history the corrected value is the mean of the current prediction and of the prediction
  at the trial next latent (one step taken with the current prediction) and the next
  timestep; with one entry \<open>h1\<close> it is \<open>(3 * current - h1) / 2\<close>; with two entries,
  the last being \<open>h1\<close>, it is \<open>(23 * current - 16 * h1 + 5 * h2) / 12\<close>; with three or
  more it is \<open>(55 * current - 59 * h1 + 37 * h2 - 9 * h3) / 24\<close> on the last three
  entries, whatever the older ones are.
\<close>

theorem plms_order_rule:
  "(g \<ge> 1 \<longrightarrow>
      p_sample_plms E x nc pc g ts sc i rep q temp nd old_eps t_next
        = bind (e_t_prime E x nc pc g sc i rep q temp nd old_eps t_next
                  (noise_prediction E x ts nc pc g)) (\<lambda>e.
          bind (get_x_prev_and_pred_x0 E x sc rep q temp nd e i) (\<lambda>(x_prev, pred_x0).
            ret (x_prev, pred_x0, noise_prediction E x ts nc pc g))))
   \<and> (old_eps = [] \<longrightarrow>
        e_t_prime E x nc pc g sc i rep q temp nd old_eps t_next cur
          = bind (get_x_prev_and_pred_x0 E x sc rep q temp nd cur i) (\<lambda>(next_latent, pred_x0).
              ret (sdiv (tadd cur (noise_prediction E next_latent t_next nc pc g)) (Num 2))))
   \<and> (old_eps = [h1] \<longrightarrow>
        e_t_prime E x nc pc g sc i rep q temp nd old_eps t_next cur
          = ret (sdiv (tsub (smul (Num 3) cur) h1) (Num 2)))
   \<and> (old_eps = [h2, h1] \<longrightarrow>
        e_t_prime E x nc pc g sc i rep q temp nd old_eps t_next cur
          = ret (sdiv (tadd (tsub (smul (Num 23) cur) (smul (Num 16) h1))
                            (smul (Num 5) h2))
                      (Num 12)))
   \<and> (old_eps = older @ [h3, h2, h1] \<longrightarrow>
        e_t_prime E x nc pc g sc i rep q temp nd old_eps t_next cur
          = ret (sdiv (tsub (tadd (tsub (smul (Num 55) cur) (smul (Num 59) h1))
                                  (smul (Num 37) h2))
                            (smul (Num 9) h3))
                      (Num 24)))"
  by (auto simp add: p_sample_plms_def e_t_prime_def Let_def nth_append)

theorem plms_order_rule_witness:
  "p_sample_plms E2 [[Num 15]] [[Num 0]] [[Num 0]] 1 [1] sched5 4 False False 1 0 [] [1] w_zero
      = (Inr ([[Num (202 / 15)]], [[Num (19 / 3)]], [[Num 15]]), w_zero\<lparr>pos := 2\<rparr>)
   \<and> e_t_prime E2 [[Num 15]] [[Num 0]] [[Num 0]] 1 sched5 4 False False 1 0 [] [1] [[Num 15]] w_zero
      = (Inr [[Num 14]], w_zero\<lparr>pos := 1\<rparr>)
   \<and> e_t_prime E2 [[Num 15]] [[Num 0]] [[Num 0]] 1 sched5 3 False False 1 0 [[[Num 2]]] [1]
        [[Num 24]] w_zero
      = (Inr [[Num 35]], w_zero)
   \<and> e_t_prime E2 [[Num 15]] [[Num 0]] [[Num 0]] 1 sched5 2 False False 1 0
        [[[Num 3]], [[Num 2]]] [1] [[Num 24]] w_zero
      = (Inr [[Num (535 / 12)]], w_zero)
   \<and> e_t_prime E2 [[Num 15]] [[Num 0]] [[Num 0]] 1 sched5 1 False False 1 0
        ([[[Num 100]]] @ [[[Num 4]], [[Num 3]], [[Num 2]]]) [1] [[Num 24]] w_zero
      = (Inr [[Num (1277 / 24)]], w_zero)"
  using plms_order_rule [of 1 E2 "[[Num 15]]" "[[Num 0]]" "[[Num 0]]" "[1]" sched5 4 False False 1 0
      "[]" "[1]" "[[Num 15]]"]
    plms_order_rule [of 1 E2 "[[Num 15]]" "[[Num 0]]" "[[Num 0]]" "[1]" sched5 3 False False 1 0
      "[[[Num 2]]]" "[1]" "[[Num 24]]" "[[Num 2]]"]
    plms_order_rule [of 1 E2 "[[Num 15]]" "[[Num 0]]" "[[Num 0]]" "[1]" sched5 2 False False 1 0
      "[[[Num 3]], [[Num 2]]]" "[1]" "[[Num 24]]" "[[Num 2]]" "[[Num 3]]"]
    plms_order_rule [of 1 E2 "[[Num 15]]" "[[Num 0]]" "[[Num 0]]" "[1]" sched5 1 False False 1 0
      "[[[Num 100]]] @ [[[Num 4]], [[Num 3]], [[Num 2]]]" "[1]" "[[Num 24]]"
      "[[Num 2]]" "[[Num 3]]" "[[[Num 100]]]" "[[Num 4]]"]
  by (simp add: get_x_prev_and_pred_x0_def E2_def sched5_def w_zero_def index_at_def
        noise_like_def shape_of_def randn_def bind_def ret_def lift_def dir_xt_def
        sdiv_def tsub_def tadd_def smul_def tscale_def tmap_def tzip_def
        sqrt_16_25 sqrt_9_25)

section \<open>The composite of \<open>sample\<close>\<close>

text \<open>
  C9: with a mask and an original latent, every iteration of \<open>sample\<close>, in both samplers,
  gives its step the latent \<open>q_sample(orig_latent, ts) * mask + (1 - mask) * noisy_latent\<close>,
  whatever the iteration number \<open>i\<close> is: there is no hint in \<open>sample\<close>. The mask block
  of \<open>decode\<close> blends \<open>0.8\<close> of the raw original latent into the known region while
  \<open>i < 2\<close> and composites the plain known region from then on.
\<close>

theorem sample_composite_without_hint:
  "ddim_sample_body E nc pc g b (Some m) (Some orig) temp nd q sc tot (i, step) x
     = bind (q_sample E orig (replicate b step) None) (\<lambda>img_orig.
       bind (p_sample_ddim E (tadd (tmul img_orig m) (tmul (rsub (Num 1) m) x)) nc pc g
               (replicate b step) (tot - i - 1) sc False q temp nd)
         (\<lambda>(x', predicted). ret x'))
   \<and> plms_sample_body E nc pc g b (Some m) (Some orig) temp nd q sc tr tot (i, step) (x, h)
     = bind (lift (index_at tr (min (i + 1) (length tr - 1)))) (\<lambda>step_next.
       bind (q_sample E orig (replicate b step) None) (\<lambda>img_orig.
       bind (p_sample_plms E (tadd (tmul img_orig m) (tmul (rsub (Num 1) m) x)) nc pc g
               (replicate b step) sc (tot - i - 1) False q temp nd h
               (replicate b step_next))
         (\<lambda>(x', predicted, e). ret (x', append_pop h e))))
   \<and> decode_mask_block E (Some m) (Some orig) noise i ts x
     = bind (q_sample E orig ts noise) (\<lambda>xdec_orig.
         ret (tadd (tmul (if i < 2
                          then tadd (tscale xdec_orig (Num (1 - 8 / 10)))
                                    (tscale orig (Num (8 / 10)))
                          else xdec_orig) m)
                   (tmul (rsub (Num 1) m) x)))"
  by (simp add: ddim_sample_body_def plms_sample_body_def sample_mask_block_def
        decode_mask_block_def composite_def with_hints_def hint_strength_def Let_def
        bind_assoc cong: if_cong)

section \<open>Noising an image\<close>

text \<open>
  C2, against the claim as it is stated: for the model of two timesteps and its schedule
  of one step, at the model timestep 0 the source returns \<open>3/5 * x_0 + 4/5 * noise\<close>,
  where the whole-range arrays give \<open>4/5 * x_0 + 3/5 * noise\<close>; at the model timestep 1
  the source raises an index error, where the whole-range arrays give
  \<open>3/5 * x_0 + 4/5 * noise\<close>.
\<close>

theorem noise_an_image_counterexample:
 "DDIMSchedule E2 2 alphas2 1 ''uniform'' 0 = Inr sched2
  \<and> noise_an_image [[Num 1]] [0] sched2 (Some [[Num 0]]) w_zero = (Inr [[Num (3 / 5)]], w_zero)
  \<and> noise_an_image_spec [[Num 1]] [0] sched2 [[Num 0]] = Inr [[Num (4 / 5)]]
  \<and> noise_an_image [[Num 1]] [1] sched2 (Some [[Num 0]]) w_zero = (Inl IndexError, w_zero)
  \<and> noise_an_image_spec [[Num 1]] [1] sched2 [[Num 0]] = Inr [[Num (3 / 5)]]"
  by (simp add: DDIMSchedule_def E2_def alphas2_def uniform_timesteps_def
      make_ddim_sampling_parameters_def index_at_def sigma_of_def sqrt_16_25 sqrt_9_25
      sched2_def noise_an_image_def noise_an_image_spec_def clamp_t_def extract_into_tensor_def
      row_scale_def tadd_def tzip_def raise_def ret_def)

text \<open>
  C2, amended: \<open>noise_an_image\<close> clamps each \<open>t\<close> to \<open>[0, 1000]\<close> and uses it as an
  index into the arrays of the schedule, \<open>sqrt(ddim_alphas)\<close> and
  \<open>ddim_sqrt_one_minus_alphas\<close>, which have one entry for each schedule step (not for
  each model timestep): it returns
  \<open>sqrt(ddim_alphas[t]) * x_0 + ddim_sqrt_one_minus_alphas[t] * noise\<close> where every
  clamped \<open>t\<close> is below the number of schedule steps, and raises an index error where
  one is not. Without a noise argument the noise is drawn first.
\<close>

theorem noise_an_image_schedule_arrays:
  "(list_all (\<lambda>k. nat (max 0 (min 1000 k)) < length (ddim_alphas sc)
              \<and> nat (max 0 (min 1000 k)) < length (ddim_sqrt_one_minus_alphas sc)) t \<longrightarrow>
      noise_an_image x t sc (Some z) w
        = (Inr (tadd (row_scale (map (\<lambda>k. fsqrt (ddim_alphas sc ! nat (max 0 (min 1000 k)))) t) x)
                     (row_scale (map (\<lambda>k. ddim_sqrt_one_minus_alphas sc ! nat (max 0 (min 1000 k))) t)
                        z)), w))
   \<and> (\<not> list_all (\<lambda>k. nat (max 0 (min 1000 k)) < length (ddim_alphas sc)) t \<longrightarrow>
        noise_an_image x t sc (Some z) w = (Inl IndexError, w))
   \<and> noise_an_image x t sc None = bind (randn_like x) (\<lambda>z. noise_an_image x t sc (Some z))
   \<and> (DDIMSchedule E T al n d eta = Inr sc \<or> PLMSSchedule E T al n d = Inr sc \<longrightarrow>
        length (ddim_alphas sc) = length (ddim_timesteps sc)
        \<and> length (ddim_sqrt_one_minus_alphas sc) = length (ddim_timesteps sc))"
proof -
  let ?c = "\<lambda>k. nat (max 0 (min 1000 k))"
  have a: "list_all (\<lambda>k. ?c k < length (ddim_alphas sc)
              \<and> ?c k < length (ddim_sqrt_one_minus_alphas sc)) t \<Longrightarrow>
      noise_an_image x t sc (Some z) w
        = (Inr (tadd (row_scale (map (\<lambda>k. fsqrt (ddim_alphas sc ! ?c k)) t) x)
                     (row_scale (map (\<lambda>k. ddim_sqrt_one_minus_alphas sc ! ?c k) t) z)), w)"
  proof -
    assume h: "list_all (\<lambda>k. ?c k < length (ddim_alphas sc)
              \<and> ?c k < length (ddim_sqrt_one_minus_alphas sc)) t"
    have 1: "list_all (\<lambda>k. k < length (map fsqrt (ddim_alphas sc))) (clamp_t t)"
      using h by (simp add: clamp_t_def list_all_iff)
    have 2: "list_all (\<lambda>k. k < length (ddim_sqrt_one_minus_alphas sc)) (clamp_t t)"
      using h by (simp add: clamp_t_def list_all_iff)
    have 3: "map ((!) (map fsqrt (ddim_alphas sc))) (clamp_t t)
               = map (\<lambda>k. fsqrt (ddim_alphas sc ! ?c k)) t"
      using h by (simp add: clamp_t_def list_all_iff)
    have 4: "map ((!) (ddim_sqrt_one_minus_alphas sc)) (clamp_t t)
               = map (\<lambda>k. ddim_sqrt_one_minus_alphas sc ! ?c k) t"
      by (simp add: clamp_t_def comp_def)
    show ?thesis
      by (simp add: noise_an_image_def extract_into_tensor_def map_err_all [OF 1]
            map_err_all [OF 2] 3 4 ret_def)
  qed
  have b: "\<not> list_all (\<lambda>k. ?c k < length (ddim_alphas sc)) t \<Longrightarrow>
        noise_an_image x t sc (Some z) w = (Inl IndexError, w)"
  proof -
    assume h: "\<not> list_all (\<lambda>k. ?c k < length (ddim_alphas sc)) t"
    have 1: "\<not> list_all (\<lambda>k. k < length (map fsqrt (ddim_alphas sc))) (clamp_t t)"
      using h by (simp add: clamp_t_def list_all_iff)
    show ?thesis
      by (simp add: noise_an_image_def extract_into_tensor_def map_err_fail [OF 1] raise_def)
  qed
  have c: "noise_an_image x t sc None = bind (randn_like x) (\<lambda>z. noise_an_image x t sc (Some z))"
    by (simp add: noise_an_image_def Let_def)
  have d: "DDIMSchedule E T al n d eta = Inr sc \<or> PLMSSchedule E T al n d = Inr sc \<Longrightarrow>
        length (ddim_alphas sc) = length (ddim_timesteps sc)
        \<and> length (ddim_sqrt_one_minus_alphas sc) = length (ddim_timesteps sc)"
    by (auto simp add: DDIMSchedule_def PLMSSchedule_def make_ddim_sampling_parameters_def
          split: if_splits sum.splits dest: map_err_length)
  from a b c d show ?thesis by blast
qed


theorem noise_an_image_schedule_arrays_witness:
  "noise_an_image [[Num 5]] [0] sched2 (Some [[Num 10]]) w_zero = (Inr [[Num 11]], w_zero)
   \<and> noise_an_image [[Num 5]] [1] sched2 (Some [[Num 10]]) w_zero = (Inl IndexError, w_zero)
   \<and> DDIMSchedule E2 2 alphas2 1 ''uniform'' 0 = Inr sched2
   \<and> length (ddim_alphas sched2) = length (ddim_timesteps sched2)
   \<and> length (ddim_sqrt_one_minus_alphas sched2) = length (ddim_timesteps sched2)"
  using noise_an_image_schedule_arrays
      [of sched2 "[0]" "[[Num 5]]" "[[Num 10]]" w_zero E2 2 alphas2 1 "''uniform''" 0]
    noise_an_image_schedule_arrays
      [of sched2 "[1]" "[[Num 5]]" "[[Num 10]]" w_zero E2 2 alphas2 1 "''uniform''" 0]
    sched2_built
  by (simp add: sched2_def row_scale_def tadd_def tzip_def sqrt_9_25)


section \<open>The history of PLMS\<close>

text \<open>
  C5: in \<open>sample\<close> and in \<open>decode\<close> of the PLMS sampler the history starts empty, and
  after any number \<open>k\<close> of iterations it holds at most 3 entries. Each iteration appends
  the third result of \<open>p_sample_plms\<close>, which is the noise prediction at the latent
  that the step was given (the raw prediction, not \<open>e_t_prime\<close>), and then drops the
  oldest entry if there are 4.
\<close>

theorem plms_history:
  "(for_loop (plms_sample_body E nc pc g b m orig temp nd q sc tr tot) (take k items) (x0, []) w
      = (Inr (x', h), w') \<longrightarrow> length h \<le> 3)
   \<and> (for_loop (plms_decode_body E nc pc g sc x0 temp m orig z tr tot) (take k items) (x0, []) w
      = (Inr (x', h), w') \<longrightarrow> length h \<le> 3)
   \<and> (plms_sample_body E nc pc g b m orig temp nd q sc tr tot (i, step) (x, old) w
      = (Inr (x', h), w') \<longrightarrow>
        (\<exists>xc w1. sample_mask_block E m orig (replicate b step) x w = (Inr xc, w1)
           \<and> h = append_pop old (noise_prediction E xc (replicate b step) nc pc g)))
   \<and> (plms_decode_body E nc pc g sc x0 temp m orig z tr tot (i, step) (x, old) w
      = (Inr (x', h), w') \<longrightarrow>
        (\<exists>xc w1. decode_mask_block E m orig (Some z) i (replicate (length x0) step) x w
                    = (Inr xc, w1)
           \<and> h = append_pop old (noise_prediction E xc (replicate (length x0) step) nc pc g)))
   \<and> append_pop old e = (if 3 \<le> length old then tl old @ [e] else old @ [e])"
proof -
  have inv_s: "\<And>item s w s' w'. length (snd s) \<le> 3 \<Longrightarrow>
      plms_sample_body E nc pc g b m orig temp nd q sc tr tot item s w = (Inr s', w')
      \<Longrightarrow> length (snd s') \<le> 3"
  proof -
    fix item :: "nat \<times> nat" and s s' :: "tensor \<times> tensor list" and w w'
    assume l: "length (snd s) \<le> 3"
      and r: "plms_sample_body E nc pc g b m orig temp nd q sc tr tot item s w = (Inr s', w')"
    obtain i step where item: "item = (i, step)" by (cases item)
    obtain x old where s: "s = (x, old)" by (cases s)
    obtain x1 h1 where s': "s' = (x1, h1)" by (cases s')
    from plms_sample_body_history [OF r [unfolded item s s']] l s s'
    show "length (snd s') \<le> 3" by (auto simp add: append_pop_length)
  qed
  have inv_d: "\<And>item s w s' w'. length (snd s) \<le> 3 \<Longrightarrow>
      plms_decode_body E nc pc g sc x0 temp m orig z tr tot item s w = (Inr s', w')
      \<Longrightarrow> length (snd s') \<le> 3"
  proof -
    fix item :: "nat \<times> nat" and s s' :: "tensor \<times> tensor list" and w w'
    assume l: "length (snd s) \<le> 3"
      and r: "plms_decode_body E nc pc g sc x0 temp m orig z tr tot item s w = (Inr s', w')"
    obtain i step where item: "item = (i, step)" by (cases item)
    obtain x old where s: "s = (x, old)" by (cases s)
    obtain x1 h1 where s': "s' = (x1, h1)" by (cases s')
    from plms_decode_body_history [OF r [unfolded item s s']] l s s'
    show "length (snd s') \<le> 3" by (auto simp add: append_pop_length)
  qed
  have a: "for_loop (plms_sample_body E nc pc g b m orig temp nd q sc tr tot) (take k items)
             (x0, []) w = (Inr (x', h), w') \<Longrightarrow> length h \<le> 3"
    using for_loop_invariant [where P = "\<lambda>s. length (snd s) \<le> 3"
        and body = "plms_sample_body E nc pc g b m orig temp nd q sc tr tot"
        and s = "(x0, [])" and s' = "(x', h)", OF inv_s]
    by simp
  have b: "for_loop (plms_decode_body E nc pc g sc x0 temp m orig z tr tot) (take k items)
             (x0, []) w = (Inr (x', h), w') \<Longrightarrow> length h \<le> 3"
    using for_loop_invariant [where P = "\<lambda>s. length (snd s) \<le> 3"
        and body = "plms_decode_body E nc pc g sc x0 temp m orig z tr tot"
        and s = "(x0, [])" and s' = "(x', h)", OF inv_d]
    by simp
  show ?thesis
  proof (intro conjI impI)
    assume "for_loop (plms_sample_body E nc pc g b m orig temp nd q sc tr tot) (take k items)
             (x0, []) w = (Inr (x', h), w')"
    then show "length h \<le> 3" by (rule a)
  next
    assume "for_loop (plms_decode_body E nc pc g sc x0 temp m orig z tr tot) (take k items)
             (x0, []) w = (Inr (x', h), w')"
    then show "length h \<le> 3" by (rule b)
  next
    assume "plms_sample_body E nc pc g b m orig temp nd q sc tr tot (i, step) (x, old) w
              = (Inr (x', h), w')"
    then show "\<exists>xc w1. sample_mask_block E m orig (replicate b step) x w = (Inr xc, w1)
           \<and> h = append_pop old (noise_prediction E xc (replicate b step) nc pc g)"
      by (rule plms_sample_body_history)
  next
    assume "plms_decode_body E nc pc g sc x0 temp m orig z tr tot (i, step) (x, old) w
              = (Inr (x', h), w')"
    then show "\<exists>xc w1. decode_mask_block E m orig (Some z) i (replicate (length x0) step) x w
                    = (Inr xc, w1)
           \<and> h = append_pop old (noise_prediction E xc (replicate (length x0) step) nc pc g)"
      by (rule plms_decode_body_history)
  next
    show "append_pop old e = (if 3 \<le> length old then tl old @ [e] else old @ [e])"
      by (rule append_pop_alt)
  qed
qed


theorem plms_history_witness:
  "for_loop (plms_sample_body E2 [[Num 0]] [[Num 0]] 1 1 None None 1 0 False sched2 [1] 1)
       (take 1 (List.enumerate 0 [1])) ([[Num 15]], []) w_zero
     = (Inr ([[Num (202 / 15)]], [[[Num 15]]]), w_zero\<lparr>pos := 2\<rparr>)
   \<and> length [[[Num 15 :: fl]]] \<le> 3
   \<and> for_loop (plms_decode_body E2 [[Num 0]] [[Num 0]] 1 sched5 [[Num 15]] 1 None None [[Num 0]]
                 [1, 1, 1, 1, 1] 5)
       (take 5 (List.enumerate 0 [1, 1, 1, 1, 1])) ([[Num 15]], []) w_zero
     = (Inr ([[Num (17954280137 / 2099520000)]],
             [[[Num (5413 / 450)]], [[Num (870097 / 81000)]], [[Num (55817887 / 5832000)]]]),
        w_zero\<lparr>pos := 6\<rparr>)
   \<and> length [[[Num (5413 / 450)]], [[Num (870097 / 81000)]], [[Num (55817887 / 5832000)]]] \<le> 3
   \<and> plms_sample_body E2 [[Num 0]] [[Num 0]] 1 1 None None 1 0 False sched2 [1] 1 (0, 1)
        ([[Num 15]], []) w_zero
     = (Inr ([[Num (202 / 15)]], [[[Num 15]]]), w_zero\<lparr>pos := 2\<rparr>)
   \<and> plms_decode_body E2 [[Num 0]] [[Num 0]] 1 sched5 [[Num 15]] 1 None None [[Num 0]]
        [1, 1, 1, 1, 1] 5 (3, 1) ([[Num 24]], [[[Num 4]], [[Num 3]], [[Num 2]]]) w_zero
     = (Inr ([[Num (2581 / 360)]], [[[Num 3]], [[Num 2]], [[Num 24]]]), w_zero\<lparr>pos := 1\<rparr>)
   \<and> append_pop [[[Num 4]], [[Num 3]], [[Num 2]]] [[Num 24]] = [[[Num 3]], [[Num 2]], [[Num 24]]]"
  using plms_history [where E = E2 and nc = "[[Num 0]]" and pc = "[[Num 0]]"
      and g = 1 and b = 1 and m = None and orig = None and temp = 1 and nd = 0 and q = False
      and sc = sched2 and tr = "[1]" and tot = 1 and k = 1 and items = "List.enumerate 0 [1]"
      and ?x0.0 = "[[Num 15]]" and w = w_zero and x' = "[[Num (202 / 15)]]" and h = "[[[Num 15]]]"
      and w' = "w_zero\<lparr>pos := 2\<rparr>", THEN conjunct1]
    plms_history [where E = E2 and nc = "[[Num 0]]" and pc = "[[Num 0]]" and g = 1
      and m = None and orig = None and temp = 1 and z = "[[Num 0]]"
      and sc = sched5 and tr = "[1, 1, 1, 1, 1]" and tot = 5 and k = 5
      and items = "List.enumerate 0 [1, 1, 1, 1, 1]"
      and ?x0.0 = "[[Num 15]]" and w = w_zero and x' = "[[Num (17954280137 / 2099520000)]]"
      and h = "[[[Num (5413 / 450)]], [[Num (870097 / 81000)]], [[Num (55817887 / 5832000)]]]"
      and w' = "w_zero\<lparr>pos := 6\<rparr>", THEN conjunct2, THEN conjunct1]
    plms_history [where E = E2 and nc = "[[Num 0]]" and pc = "[[Num 0]]"
      and g = 1 and b = 1 and m = None and orig = None and temp = 1 and nd = 0 and q = False
      and sc = sched2 and tr = "[1]" and tot = 1 and i = 0 and step = 1
      and x = "[[Num 15]]" and old = "[]" and w = w_zero and x' = "[[Num (202 / 15)]]"
      and h = "[[[Num 15]]]" and w' = "w_zero\<lparr>pos := 2\<rparr>",
      THEN conjunct2, THEN conjunct2, THEN conjunct1]
    plms_history [where E = E2 and nc = "[[Num 0]]" and pc = "[[Num 0]]" and g = 1
      and m = None and orig = None and temp = 1 and z = "[[Num 0]]"
      and sc = sched5 and tr = "[1, 1, 1, 1, 1]" and tot = 5 and ?x0.0 = "[[Num 15]]"
      and i = 3 and step = 1 and x = "[[Num 24]]" and old = "[[[Num 4]], [[Num 3]], [[Num 2]]]"
      and w = w_zero and x' = "[[Num (2581 / 360)]]" and h = "[[[Num 3]], [[Num 2]], [[Num 24]]]"
      and w' = "w_zero\<lparr>pos := 1\<rparr>",
      THEN conjunct2, THEN conjunct2, THEN conjunct2, THEN conjunct1]
  by (simp add: run_defs)


section \<open>The noise of the known region in \<open>decode\<close>\<close>

text \<open>
  C10: \<open>PLMSSampler.decode\<close> without a noise argument draws one noise tensor before the
  loop and then runs as with that tensor given. Every call of \<open>q_sample\<close> in the loop
  has this tensor as its noise argument: the call is not changed by a \<open>q_sample\<close> that
  ignores the noise argument it gets and takes this tensor. \<open>DDIMSampler.decode\<close> calls
  \<open>q_sample\<close> with no noise argument in every iteration, which leaves the noise to
  \<open>q_sample\<close>.
\<close>

theorem plms_decode_fixed_noise:
  "plms_decode E nc pc g sc x0 t_start temp m orig None
     = bind (randn_like x0) (\<lambda>z. plms_decode E nc pc g sc x0 t_start temp m orig (Some z))
   \<and> plms_decode E nc pc g sc x0 t_start temp m orig (Some z)
     = plms_decode (E\<lparr>q_sample := \<lambda>y t n. q_sample E y t (Some z)\<rparr>) nc pc g sc x0 t_start temp
         m orig (Some z)
   \<and> plms_decode_body E nc pc g sc x0 temp (Some mk) (Some o_lat) z tr tot (i, step) (x, old)
     = bind (lift (index_at tr (min (i + 1) (length tr - 1)))) (\<lambda>step_next.
       bind (q_sample E o_lat (replicate (length x0) step) (Some z)) (\<lambda>xdec_orig.
       bind (p_sample_plms E (composite (with_hints i xdec_orig o_lat) mk x) nc pc g
               (replicate (length x0) step) sc (tot - i - 1) False False temp 0 old
               (replicate (length x0) step_next))
         (\<lambda>(x', pred_x0, e). ret (x', append_pop old e))))
   \<and> ddim_decode E x0 nc pc g t0 sc temp m orig
     = ddim_decode (E\<lparr>q_sample := \<lambda>y t n. q_sample E y t None\<rparr>) x0 nc pc g t0 sc temp m orig"
proof -
  have 1: "plms_decode E nc pc g sc x0 t_start temp m orig None
     = bind (randn_like x0) (\<lambda>z. plms_decode E nc pc g sc x0 t_start temp m orig (Some z))"
    by (simp add: plms_decode_def Let_def)
  have b: "plms_decode_body (E\<lparr>q_sample := \<lambda>y t n. q_sample E y t (Some z)\<rparr>) nc pc g sc x0 temp
             m orig z tr tot
           = plms_decode_body E nc pc g sc x0 temp m orig z tr tot" for tr tot
    by (intro ext) (simp add: plms_decode_body_def decode_mask_block_q_sample)
  have 2: "plms_decode E nc pc g sc x0 t_start temp m orig (Some z)
     = plms_decode (E\<lparr>q_sample := \<lambda>y t n. q_sample E y t (Some z)\<rparr>) nc pc g sc x0 t_start temp
         m orig (Some z)"
    by (simp add: plms_decode_def Let_def b)
  have 3: "plms_decode_body E nc pc g sc x0 temp (Some mk) (Some o_lat) z tr tot (i, step) (x, old)
     = bind (lift (index_at tr (min (i + 1) (length tr - 1)))) (\<lambda>step_next.
       bind (q_sample E o_lat (replicate (length x0) step) (Some z)) (\<lambda>xdec_orig.
       bind (p_sample_plms E (composite (with_hints i xdec_orig o_lat) mk x) nc pc g
               (replicate (length x0) step) sc (tot - i - 1) False False temp 0 old
               (replicate (length x0) step_next))
         (\<lambda>(x', pred_x0, e). ret (x', append_pop old e))))"
    by (simp add: plms_decode_body_def decode_mask_block_def Let_def bind_assoc)
  have c: "ddim_decode_body (E\<lparr>q_sample := \<lambda>y t n. q_sample E y t None\<rparr>) x0 nc pc g sc temp
             m orig tot
           = ddim_decode_body E x0 nc pc g sc temp m orig tot" for tot
    by (intro ext) (simp add: ddim_decode_body_def decode_mask_block_q_sample)
  have 4: "ddim_decode E x0 nc pc g t0 sc temp m orig
     = ddim_decode (E\<lparr>q_sample := \<lambda>y t n. q_sample E y t None\<rparr>) x0 nc pc g t0 sc temp m orig"
    by (simp add: ddim_decode_def Let_def c)
  from 1 2 3 4 show ?thesis by (intro conjI)
qed


section \<open>\<open>decode\<close> over the whole schedule and \<open>sample\<close>\<close>

text \<open>
  C6, against the claim as it is stated: with a mask of all ones and the original latent
  5, on the model of two timesteps, \<open>sample\<close> from the latent 0 returns \<open>13/5\<close> and
  \<open>decode\<close> over the whole schedule of \<open>sample\<close>, from the same latent and the same
  generator, returns \<open>299/75\<close>: \<open>decode\<close> blends the hint into the known region in
  its first two iterations, \<open>sample\<close> does not.
\<close>

theorem ddim_decode_mask_counterexample:
  "DDIMSchedule E2 (model_num_timesteps E2) (model_alphas_cumprod E2) 1 ''uniform'' 0 = Inr sched2
   \<and> int (length (ddim_timesteps sched2)) = 1
   \<and> ddim_sample E2 1 (1, 1) [[Num 0]] [[Num 0]] 1 1 (Some [[Num 1]]) (Some [[Num 5]]) 1 0
        (Some [[Num 0]]) False w_zero
      = (Inr [[Num (13 / 5)]], w_zero\<lparr>pos := 2\<rparr>)
   \<and> ddim_decode E2 [[Num 0]] [[Num 0]] [[Num 0]] 1 1 sched2 1 (Some [[Num 1]]) (Some [[Num 5]])
        w_zero
      = (Inr [[Num (299 / 75)]], w_zero\<lparr>pos := 2\<rparr>)"
proof -
  have 1: "DDIMSchedule E2 (model_num_timesteps E2) (model_alphas_cumprod E2) 1 ''uniform'' 0
             = Inr sched2"
    using sched2_built by (simp add: E2_def)
  have 2: "ddim_sample E2 1 (1, 1) [[Num 0]] [[Num 0]] 1 1 (Some [[Num 1]]) (Some [[Num 5]]) 1 0
        (Some [[Num 0]]) False w_zero
      = (Inr [[Num (13 / 5)]], w_zero\<lparr>pos := 2\<rparr>)"
    by (simp add: ddim_sample_def run_defs sched_defs)
  have 3: "ddim_decode E2 [[Num 0]] [[Num 0]] [[Num 0]] 1 1 sched2 1 (Some [[Num 1]]) (Some [[Num 5]])
        w_zero
      = (Inr [[Num (299 / 75)]], w_zero\<lparr>pos := 2\<rparr>)"
    by (simp add: ddim_decode_def run_defs sched_defs)
  from 1 2 3 show ?thesis by (simp add: sched2_def)
qed


text \<open>
  C6, amended: without a mask, \<open>DDIMSampler.decode\<close> with \<open>t_start\<close> the number of
  steps of the schedule that \<open>sample\<close> builds returns what \<open>sample\<close> returns from the
  same initial latent and the same generator, and leaves the generator in the same
  state, and so after every number \<open>k\<close> of iterations; here \<open>sample\<close> is called with the
  batch size of the latent, a conditioning of that batch size, and no noise dropout
  (\<open>decode\<close> has none).
\<close>

theorem ddim_decode_full_is_sample:
  "DDIMSchedule E (model_num_timesteps E) (model_alphas_cumprod E) n ''uniform'' 0 = Inr sc
   \<and> length pc = length x0 \<and> nd \<le> 0 \<longrightarrow>
     ddim_decode E x0 nc pc g (int (length (ddim_timesteps sc))) sc temp None orig
       = ddim_sample E n sh nc pc g (length x0) None orig' temp nd (Some x0) q
     \<and> for_loop (ddim_decode_body E x0 nc pc g sc temp None orig (length (ddim_timesteps sc)))
           (take k (List.enumerate 0 (rev (ddim_timesteps sc)))) x0
       = for_loop (ddim_sample_body E nc pc g (length x0) None orig' temp nd q sc
                     (length (ddim_timesteps sc)))
           (take k (List.enumerate 0 (rev (ddim_timesteps sc)))) x0"
proof (intro impI, elim conjE)
  assume sc: "DDIMSchedule E (model_num_timesteps E) (model_alphas_cumprod E) n ''uniform'' 0
                = Inr sc"
    and len: "length pc = length x0" and nd: "nd \<le> 0"
  have "ddim_decode E x0 nc pc g (int (length (ddim_timesteps sc))) sc temp None orig
       = ddim_sample E n sh nc pc g (length x0) None orig' temp nd (Some x0) q"
    by (simp add: ddim_decode_def ddim_sample_def sc len slice_to_def Let_def
          ddim_bodies_agree [OF nd, of E x0 nc pc g sc temp orig _ orig' q])
  then show "ddim_decode E x0 nc pc g (int (length (ddim_timesteps sc))) sc temp None orig
       = ddim_sample E n sh nc pc g (length x0) None orig' temp nd (Some x0) q
     \<and> for_loop (ddim_decode_body E x0 nc pc g sc temp None orig (length (ddim_timesteps sc)))
           (take k (List.enumerate 0 (rev (ddim_timesteps sc)))) x0
       = for_loop (ddim_sample_body E nc pc g (length x0) None orig' temp nd q sc
                     (length (ddim_timesteps sc)))
           (take k (List.enumerate 0 (rev (ddim_timesteps sc)))) x0"
    by (simp add: ddim_bodies_agree [OF nd, of E x0 nc pc g sc temp orig _ orig' q])
qed

theorem ddim_decode_full_is_sample_witness:
  "DDIMSchedule E2 (model_num_timesteps E2) (model_alphas_cumprod E2) 1 ''uniform'' 0 = Inr sched2
   \<and> ddim_decode E2 [[Num 15]] [[Num 0]] [[Num 0]] 1 (int (length (ddim_timesteps sched2))) sched2 1
        None None w_zero
      = (Inr [[Num 13]], w_zero\<lparr>pos := 1\<rparr>)
   \<and> ddim_sample E2 1 (1, 1) [[Num 0]] [[Num 0]] 1 (length [[Num 15 :: fl]]) None None 1 0
        (Some [[Num 15]]) False w_zero
      = (Inr [[Num 13]], w_zero\<lparr>pos := 1\<rparr>)"
proof -
  have 1: "DDIMSchedule E2 (model_num_timesteps E2) (model_alphas_cumprod E2) 1 ''uniform'' 0
             = Inr sched2"
    using sched2_built by (simp add: E2_def)
  have 2: "ddim_decode E2 [[Num 15]] [[Num 0]] [[Num 0]] 1 (int (length (ddim_timesteps sched2)))
             sched2 1 None None w_zero
           = (Inr [[Num 13]], w_zero\<lparr>pos := 1\<rparr>)"
    by (simp add: ddim_decode_def run_defs sched_defs)
  from ddim_decode_full_is_sample [of E2 1 sched2 "[[Num 0]]" "[[Num 15]]" 0 "[[Num 0]]" 1 1
        None "(1, 1)" None False 1] 1
  have "ddim_decode E2 [[Num 15]] [[Num 0]] [[Num 0]] 1 (int (length (ddim_timesteps sched2)))
             sched2 1 None None
        = ddim_sample E2 1 (1, 1) [[Num 0]] [[Num 0]] 1 (length [[Num 15 :: fl]]) None None 1 0
        (Some [[Num 15]]) False"
    by simp
  with 1 2 show ?thesis by simp
qed

section \<open>Masks of all zeros and of all ones\<close>

text \<open>
  C7, against the claim as it is stated: in the first iteration of \<open>decode\<close> with a mask
  of all ones and the original latent 5, the forward-noised known region is 3 and the
  composited latent is \<open>0.2 * 3 + 0.8 * 5 = 23/5\<close>.
\<close>

theorem decode_all_ones_counterexample:
  "const_like 1 [[Num 0]] = [[Num 1]]
   \<and> q_sample E2 [[Num 5]] [1] None w_zero = (Inr [[Num 3]], w_zero\<lparr>pos := 1\<rparr>)
   \<and> decode_mask_block E2 (Some (const_like 1 [[Num 0]])) (Some [[Num 5]]) None 0 [1] [[Num 0]]
        w_zero
      = (Inr [[Num (23 / 5)]], w_zero\<lparr>pos := 1\<rparr>)"
  by (simp add: run_defs sched_defs const_like_def)

text \<open>
  C7, amended. With a mask of all zeros the composite is the latent it was given, in
  \<open>sample\<close> and in \<open>decode\<close>, where the known region holds no not-a-number and has the
  latent's shape; the step then runs as the step without a mask does from the generator
  state that \<open>q_sample\<close> left. With a mask of all ones and a latent that holds no
  not-a-number, the composite is the known region: in \<open>sample\<close> what \<open>q_sample\<close>
  returned; in \<open>decode\<close> the blend \<open>0.2 * q_sample(orig_latent, ts) + 0.8 * orig_latent\<close>
  in the first two iterations and what \<open>q_sample\<close> returned from then on.
\<close>

theorem mask_boundary_cases:
  "(all_num known \<and> same_shape known x \<longrightarrow> composite known (const_like 0 x) x = x)
   \<and> (all_num x \<and> same_shape known x \<longrightarrow> composite known (const_like 1 x) x = known)
   \<and> (q_sample E orig ts None w = (Inr known, w1) \<and> all_num known \<and> same_shape known x \<longrightarrow>
        sample_mask_block E (Some (const_like 0 x)) (Some orig) ts x w = (Inr x, w1))
   \<and> (q_sample E orig ts noise w = (Inr known, w1) \<and> all_num known \<and> all_num orig
        \<and> same_shape known x \<and> same_shape orig x \<longrightarrow>
        decode_mask_block E (Some (const_like 0 x)) (Some orig) noise i ts x w = (Inr x, w1))
   \<and> (q_sample E orig ts None w = (Inr known, w1) \<and> all_num x \<and> same_shape known x \<longrightarrow>
        sample_mask_block E (Some (const_like 1 x)) (Some orig) ts x w = (Inr known, w1))
   \<and> (q_sample E orig ts noise w = (Inr known, w1) \<and> all_num x
        \<and> same_shape known x \<and> same_shape orig x \<longrightarrow>
        decode_mask_block E (Some (const_like 1 x)) (Some orig) noise i ts x w
          = (Inr (if i < 2
                  then tadd (tscale known (Num (1 - 8 / 10))) (tscale orig (Num (8 / 10)))
                  else known), w1))
   \<and> (q_sample E orig (replicate b step) None w = (Inr known, w1) \<and> all_num known
        \<and> same_shape known x \<longrightarrow>
        ddim_sample_body E nc pc g b (Some (const_like 0 x)) (Some orig) temp nd q sc tot
            (i, step) x w
          = ddim_sample_body E nc pc g b None None temp nd q sc tot (i, step) x w1)"
proof (intro conjI impI; (elim conjE)?)
  assume "all_num known" "same_shape known x"
  then show "composite known (const_like 0 x) x = x" by (rule composite_zero)
next
  assume "all_num x" "same_shape known x"
  then show "composite known (const_like 1 x) x = known" by (rule composite_one)
next
  assume "q_sample E orig ts None w = (Inr known, w1)" "all_num known" "same_shape known x"
  then show "sample_mask_block E (Some (const_like 0 x)) (Some orig) ts x w = (Inr x, w1)"
    by (simp add: sample_mask_block_def bind_def ret_def composite_zero)
next
  assume q: "q_sample E orig ts noise w = (Inr known, w1)" and "all_num known" "all_num orig"
    "same_shape known x" "same_shape orig x"
  then have "composite (with_hints i known orig) (const_like 0 x) x = x"
    by (intro composite_zero with_hints_num with_hints_shape)
  with q show "decode_mask_block E (Some (const_like 0 x)) (Some orig) noise i ts x w
                 = (Inr x, w1)"
    by (simp add: decode_mask_block_def bind_def ret_def)
next
  assume "q_sample E orig ts None w = (Inr known, w1)" "all_num x" "same_shape known x"
  then show "sample_mask_block E (Some (const_like 1 x)) (Some orig) ts x w = (Inr known, w1)"
    by (simp add: sample_mask_block_def bind_def ret_def composite_one)
next
  assume q: "q_sample E orig ts noise w = (Inr known, w1)" and "all_num x"
    "same_shape known x" "same_shape orig x"
  then have "composite (with_hints i known orig) (const_like 1 x) x = with_hints i known orig"
    by (intro composite_one with_hints_shape)
  with q show "decode_mask_block E (Some (const_like 1 x)) (Some orig) noise i ts x w
          = (Inr (if i < 2
                  then tadd (tscale known (Num (1 - 8 / 10))) (tscale orig (Num (8 / 10)))
                  else known), w1)"
    by (simp add: decode_mask_block_def bind_def ret_def with_hints_def hint_strength_def)
next
  assume "q_sample E orig (replicate b step) None w = (Inr known, w1)" "all_num known"
    "same_shape known x"
  then show "ddim_sample_body E nc pc g b (Some (const_like 0 x)) (Some orig) temp nd q sc tot
            (i, step) x w
          = ddim_sample_body E nc pc g b None None temp nd q sc tot (i, step) x w1"
    by (simp add: ddim_sample_body_def sample_mask_block_def bind_def ret_def composite_zero
          Let_def)
qed

theorem mask_boundary_cases_witness:
  "q_sample E2 [[Num 5]] [1] None w_zero = (Inr [[Num 3]], w_zero\<lparr>pos := 1\<rparr>)
   \<and> all_num [[Num 3]] \<and> all_num [[Num 5]] \<and> all_num [[Num 7]]
   \<and> same_shape [[Num 3]] [[Num 7]] \<and> same_shape [[Num 5]] [[Num 7]]
   \<and> composite [[Num 3]] (const_like 0 [[Num 7]]) [[Num 7]] = [[Num 7]]
   \<and> composite [[Num 3]] (const_like 1 [[Num 7]]) [[Num 7]] = [[Num 3]]
   \<and> sample_mask_block E2 (Some (const_like 0 [[Num 7]])) (Some [[Num 5]]) [1] [[Num 7]] w_zero
       = (Inr [[Num 7]], w_zero\<lparr>pos := 1\<rparr>)
   \<and> decode_mask_block E2 (Some (const_like 0 [[Num 7]])) (Some [[Num 5]]) None 0 [1] [[Num 7]]
        w_zero
       = (Inr [[Num 7]], w_zero\<lparr>pos := 1\<rparr>)
   \<and> sample_mask_block E2 (Some (const_like 1 [[Num 7]])) (Some [[Num 5]]) [1] [[Num 7]] w_zero
       = (Inr [[Num 3]], w_zero\<lparr>pos := 1\<rparr>)
   \<and> decode_mask_block E2 (Some (const_like 1 [[Num 7]])) (Some [[Num 5]]) None 0 [1] [[Num 7]]
        w_zero
       = (Inr [[Num (23 / 5)]], w_zero\<lparr>pos := 1\<rparr>)
   \<and> ddim_sample_body E2 [[Num 0]] [[Num 0]] 1 1 (Some (const_like 0 [[Num 7]])) (Some [[Num 5]])
        1 0 False sched2 1 (0, 1) [[Num 7]] w_zero
       = ddim_sample_body E2 [[Num 0]] [[Num 0]] 1 1 None None 1 0 False sched2 1 (0, 1) [[Num 7]]
           (w_zero\<lparr>pos := 1\<rparr>)"
proof -
  have q: "q_sample E2 [[Num 5]] [1] None w_zero = (Inr [[Num 3]], w_zero\<lparr>pos := 1\<rparr>)"
    by (simp add: run_defs sched_defs)
  have q': "q_sample E2 [[Num 5]] (replicate 1 1) None w_zero
              = (Inr [[Num 3]], w_zero\<lparr>pos := 1\<rparr>)"
    using q by simp
  have n: "all_num [[Num 3]] \<and> all_num [[Num 5]] \<and> all_num [[Num 7]]
           \<and> same_shape [[Num 3]] [[Num 7]] \<and> same_shape [[Num 5]] [[Num 7]]"
    by (simp add: all_num_def same_shape_def)
  from mask_boundary_cases [where known = "[[Num 3]]" and x = "[[Num 7]]" and E = E2
      and orig = "[[Num 5]]" and ts = "[1]" and w = w_zero and ?w1.0 = "w_zero\<lparr>pos := 1\<rparr>"
      and noise = None and i = 0 and b = 1 and step = 1 and nc = "[[Num 0]]" and pc = "[[Num 0]]"
      and g = 1 and temp = 1 and nd = 0 and q = False and sc = sched2 and tot = 1] q q' n
  show ?thesis by (simp add: tadd_def tscale_def tmap_def tzip_def)
qed


section \<open>Sampling with \<open>eta = 0\<close>\<close>

text \<open>
  C4, against the claim as it is stated. The step formula with \<open>sigma_t = 0\<close> and no
  dropout calls \<open>noise_like\<close> all the same: on a latent of one element it leaves the
  generator one sample further. And with a mask, two calls of \<open>sample\<close> with the same
  arguments, the second made where the first left the generator, return \<open>13/5\<close> and
  \<open>299/75\<close>: \<open>q_sample\<close> draws the noise of the known region.
\<close>

theorem eta_zero_randomness_counterexample:
  "p_sample_ddim_formula E2 [[Num 15]] [[Num 15]] (Num (4 / 5)) (Num (9 / 25)) (Num 0)
       (Num (16 / 25)) 0 False 1 w_count
     = (Inr ([[Num 13]], [[Num 5]]), w_count\<lparr>pos := 1\<rparr>)
   \<and> w_count\<lparr>pos := 1\<rparr> \<noteq> w_count
   \<and> ddim_sample E2 1 (1, 1) [[Num 0]] [[Num 0]] 1 1 (Some [[Num 1]]) (Some [[Num 5]]) 1 0
        (Some [[Num 0]]) False w_count
      = (Inr [[Num (13 / 5)]], w_count\<lparr>pos := 2\<rparr>)
   \<and> ddim_sample E2 1 (1, 1) [[Num 0]] [[Num 0]] 1 1 (Some [[Num 1]]) (Some [[Num 5]]) 1 0
        (Some [[Num 0]]) False (w_count\<lparr>pos := 2\<rparr>)
      = (Inr [[Num (299 / 75)]], w_count\<lparr>pos := 4\<rparr>)"
proof -
  have 1: "p_sample_ddim_formula E2 [[Num 15]] [[Num 15]] (Num (4 / 5)) (Num (9 / 25)) (Num 0)
       (Num (16 / 25)) 0 False 1 w_count
     = (Inr ([[Num 13]], [[Num 5]]), w_count\<lparr>pos := 1\<rparr>)"
    by (simp add: run_defs)
  have 2: "w_count\<lparr>pos := 1\<rparr> \<noteq> w_count"
    by (simp add: w_count_def)
  have 3: "ddim_sample E2 1 (1, 1) [[Num 0]] [[Num 0]] 1 1 (Some [[Num 1]]) (Some [[Num 5]]) 1 0
        (Some [[Num 0]]) False w_count
      = (Inr [[Num (13 / 5)]], w_count\<lparr>pos := 2\<rparr>)"
    by (simp add: ddim_sample_def run_defs sched_defs)
  have 4: "ddim_sample E2 1 (1, 1) [[Num 0]] [[Num 0]] 1 1 (Some [[Num 1]]) (Some [[Num 5]]) 1 0
        (Some [[Num 0]]) False (w_count\<lparr>pos := 2\<rparr>)
      = (Inr [[Num (299 / 75)]], w_count\<lparr>pos := 4\<rparr>)"
    by (simp add: ddim_sample_def run_defs sched_defs)
  from 1 2 3 4 show ?thesis by (intro conjI)
qed

text \<open>
  C4, amended. For \<open>eta = 0\<close> every sigma of the schedule is zero, where the cumulative
  alphas lie strictly between 0 and 1 and do not increase and the timesteps are sorted.
  The step formula with \<open>sigma_t = 0\<close> and no dropout draws one sample for each element
  of the latent (one batch entry with the repeat flag), and what it returns does not
  depend on the samples drawn. \<open>sample\<close> without a mask, with no dropout and from a
  given initial latent returns the same latent, or raises the same error, whatever the
  state of the generator is.
\<close>

theorem ddim_eta_zero:
  "(DDIMSchedule E T (map Num al) n d 0 = Inr sc \<and> (\<forall>a \<in> set al. 0 < a \<and> a < 1)
      \<and> sorted_wrt (\<lambda>a b. b \<le> a) al \<and> sorted (ddim_timesteps sc) \<longrightarrow>
      ddim_sigmas sc = replicate (length (ddim_timesteps sc)) (Num 0))
   \<and> (nd \<le> 0 \<longrightarrow>
        fst (p_sample_ddim_formula E x e s1m a_t (Num 0) a_prev nd rep temp w)
          = fst (p_sample_ddim_formula E x e s1m a_t (Num 0) a_prev nd rep temp w')
        \<and> snd (p_sample_ddim_formula E x e s1m a_t (Num 0) a_prev nd rep temp w)
          = w\<lparr>pos := pos w + (if rep then 1 else fst (shape_of x)) * snd (shape_of x)\<rparr>)
   \<and> (nd \<le> 0 \<longrightarrow>
        fst (ddim_sample E n sh nc pc g b None orig temp nd (Some x0) q w)
          = fst (ddim_sample E n sh nc pc g b None orig temp nd (Some x0) q w'))"
proof (intro conjI impI)
  assume h: "DDIMSchedule E T (map Num al) n d 0 = Inr sc \<and> (\<forall>a \<in> set al. 0 < a \<and> a < 1)
      \<and> sorted_wrt (\<lambda>a b. b \<le> a) al \<and> sorted (ddim_timesteps sc)"
  show "ddim_sigmas sc = replicate (length (ddim_timesteps sc)) (Num 0)"
    using h eta_zero_sigmas [of E T al n d sc] by blast
next
  assume nd: "nd \<le> 0"
  from formula_indep [OF _ nd, of "Num 0" E x e s1m a_t a_prev rep temp w w']
  show "fst (p_sample_ddim_formula E x e s1m a_t (Num 0) a_prev nd rep temp w)
          = fst (p_sample_ddim_formula E x e s1m a_t (Num 0) a_prev nd rep temp w')"
    by simp
  from formula_indep [OF _ nd, of "Num 0" E x e s1m a_t a_prev rep temp w w']
  show "snd (p_sample_ddim_formula E x e s1m a_t (Num 0) a_prev nd rep temp w)
          = w\<lparr>pos := pos w + (if rep then 1 else fst (shape_of x)) * snd (shape_of x)\<rparr>"
    by simp
next
  assume "nd \<le> 0"
  then show "fst (ddim_sample E n sh nc pc g b None orig temp nd (Some x0) q w)
          = fst (ddim_sample E n sh nc pc g b None orig temp nd (Some x0) q w')"
    by (rule ddim_sample_indep)
qed

theorem ddim_eta_zero_witness:
  "DDIMSchedule E2 2 (map Num [16 / 25, 9 / 25]) 1 ''uniform'' 0 = Inr sched2
   \<and> (0 :: real) < 9 / 25 \<and> (9 / 25 :: real) \<le> 16 / 25 \<and> (16 / 25 :: real) < 1
   \<and> ddim_timesteps sched2 = [1]
   \<and> ddim_sigmas sched2 = [Num 0]
   \<and> fst (p_sample_ddim_formula E2 [[Num 15]] [[Num 15]] (Num (4 / 5)) (Num (9 / 25)) (Num 0)
            (Num (16 / 25)) 0 False 1 w_zero)
      = fst (p_sample_ddim_formula E2 [[Num 15]] [[Num 15]] (Num (4 / 5)) (Num (9 / 25)) (Num 0)
            (Num (16 / 25)) 0 False 1 w_count)
   \<and> snd (p_sample_ddim_formula E2 [[Num 15]] [[Num 15]] (Num (4 / 5)) (Num (9 / 25)) (Num 0)
            (Num (16 / 25)) 0 False 1 w_zero)
      = w_zero\<lparr>pos := 1\<rparr>
   \<and> fst (ddim_sample E2 1 (1, 1) [[Num 0]] [[Num 0]] 1 1 None None 1 0 (Some [[Num 15]]) False
            w_zero)
      = fst (ddim_sample E2 1 (1, 1) [[Num 0]] [[Num 0]] 1 1 None None 1 0 (Some [[Num 15]]) False
            w_count)"
proof -
  have 1: "DDIMSchedule E2 2 (map Num [16 / 25, 9 / 25]) 1 ''uniform'' 0 = Inr sched2"
    using sched2_built by (simp add: alphas2_def)
  have 2: "(\<forall>a \<in> set [16 / 25, 9 / 25 :: real]. 0 < a \<and> a < 1)
           \<and> sorted_wrt (\<lambda>a b. b \<le> a) [16 / 25, 9 / 25 :: real]
           \<and> sorted (ddim_timesteps sched2)"
    by (simp add: sched2_def)
  from ddim_eta_zero [where E = E2 and T = 2 and al = "[16 / 25, 9 / 25]" and n = 1
      and d = "''uniform''" and sc = sched2 and nd = 0 and x = "[[Num 15]]" and e = "[[Num 15]]"
      and ?s1m.0 = "Num (4 / 5)" and a_t = "Num (9 / 25)" and a_prev = "Num (16 / 25)"
      and rep = False and temp = 1 and w = w_zero and w' = w_count and sh = "(1, 1)"
      and nc = "[[Num 0]]" and pc = "[[Num 0]]" and g = 1 and b = 1 and orig = None
      and ?x0.0 = "[[Num 15]]" and q = False] 1 2
  show ?thesis by (simp add: sched2_def shape_of_def w_zero_def)
qed


end
